theory Spec2Isabelle
  imports Main
begin

section \<open>Errors and results\<close>

text \<open>
  Every exception the Python of \<^verbatim>\<open>verl/utils/dataset.py\<close> can raise is a value.
  \<open>KeyError k\<close> is a missing dictionary key, \<open>TypeError\<close> an operation on a value of
  the wrong type (such as comparing an integer with \<open>None\<close>), \<open>AttributeError\<close> a
  method call on \<open>None\<close>, \<open>DecodeError\<close> a failing \<^verbatim>\<open>Image.open\<close>,
  \<open>ExternalError\<close> a failure inside a library call, \<open>RuntimeError\<close> the explicit
  \<^verbatim>\<open>raise RuntimeError\<close> of \<^verbatim>\<open>__getitem__\<close> and \<open>TruncationError\<close> the fatal
  outcome of the padding routine.
\<close>

datatype error =
    KeyError string
  | IndexError
  | TypeError
  | ValueError
  | AttributeError
  | ZeroDivisionError
  | DecodeError
  | ExternalError
  | RuntimeError
  | TruncationError

definition and_then :: "error + 'a \<Rightarrow> ('a \<Rightarrow> error + 'b) \<Rightarrow> error + 'b" where
  "and_then r f = (case r of Inl e \<Rightarrow> Inl e | Inr x \<Rightarrow> f x)"

section \<open>Chat messages\<close>

datatype part = ImagePart | TextPart string

datatype content = Plain string | Parts "part list"

record message =
  role :: string
  content :: content

section \<open>Splitting the prompt on the image marker\<close>

text \<open>
  \<^verbatim>\<open>prompt_str.split("<image>")\<close>: Python scans from the left, cuts at every
  non-overlapping occurrence of the separator and returns the segments in between
  (always at least one). \<open>acc\<close> holds the current segment, reversed. The separator of
  the source is never empty; for an empty one Python raises, which no caller reaches.
\<close>

fun split_acc :: "string \<Rightarrow> string \<Rightarrow> string \<Rightarrow> string list" where
  "split_acc sep acc [] = [rev acc]"
| "split_acc sep acc (c # cs) =
     (if take (length sep) (c # cs) = sep
      then rev acc # split_acc sep [] (drop (length sep - 1) cs)
      else split_acc sep (c # acc) cs)"

definition str_split :: "string \<Rightarrow> string \<Rightarrow> string list" where
  "str_split s sep = split_acc sep [] s"

text \<open>\<^verbatim>\<open>str.count\<close>: the number of non-overlapping occurrences, scanned from the left.\<close>

fun count_occurrences :: "string \<Rightarrow> string \<Rightarrow> nat" where
  "count_occurrences sep [] = 0"
| "count_occurrences sep (c # cs) =
     (if take (length sep) (c # cs) = sep
      then Suc (count_occurrences sep (drop (length sep - 1) cs))
      else count_occurrences sep cs)"

definition image_marker :: string where
  "image_marker = ''<image>''"

section \<open>Values, images and records\<close>

text \<open>
  A decoded PIL image, as far as the code looks at it: its size and its mode. An image
  reference of a raw record is one of the four forms \<^verbatim>\<open>process_image\<close> tells
  apart: a path, a dictionary (kept by its \<^verbatim>\<open>"bytes"\<close> entry, \<open>None\<close> when the key is
  missing), a byte buffer, or an image that is decoded already.
\<close>

record pil_image =
  width :: nat
  height :: nat
  mode :: string

type_synonym bytes = "nat list"

datatype image_ref =
    ImgPath string
  | ImgDict "bytes option"
  | ImgBytes bytes
  | ImgObject pil_image

text \<open>A parsed JSON value (\<^verbatim>\<open>json.load\<close>); a non-integer number is kept by its literal.\<close>

datatype json =
    JNull
  | JBool bool
  | JInt int
  | JFloat string
  | JStr string
  | JArr "json list"
  | JObj "(string \<times> json) list"

text \<open>
  A tensor of integers with one axis (\<open>input_ids\<close>, \<open>attention_mask\<close>, the standard
  \<open>position_ids\<close>) or with two (the rows of the rotary \<open>position_ids\<close>, of shape
  \<open>(3, seq_length)\<close>).
\<close>

datatype tensor = T1 "int list" | T2 "int list list"

text \<open>
  The values a record's dictionary holds: strings, JSON passed through, the list of image
  references, tensors, the plain list \<open>raw_prompt_ids\<close>, and the dictionary
  \<^verbatim>\<open>{"image": raw_image_data}\<close> stored under \<^verbatim>\<open>multi_modal_data\<close>.
\<close>

datatype pyval =
    VStr string
  | VJson json
  | VImages "image_ref list"
  | VTensor tensor
  | VList "int list"
  | VMultiModal pyval

type_synonym example = "string \<rightharpoonup> pyval"

section \<open>The libraries the module calls\<close>

text \<open>
  The tokenizer, the processor, PIL and jinja2 are not code of this module: each call the
  module makes is a field here. \<open>tok_chat_template\<close> is
  \<^verbatim>\<open>apply_chat_template(messages, add_generation_prompt=True, tokenize=False)\<close>;
  \<open>tok_chat_template_len\<close> is the \<^verbatim>\<open>len\<close> of
  \<^verbatim>\<open>apply_chat_template(messages, add_generation_prompt=True)\<close>; \<open>tok_call\<close> is
  \<^verbatim>\<open>tokenizer([prompt], add_special_tokens=False, return_tensors="pt")\<close>, giving row 0
  of \<open>input_ids\<close> and of \<open>attention_mask\<close>; \<open>tok_encode\<close> is
  \<^verbatim>\<open>tokenizer.encode(prompt, add_special_tokens=False)\<close>.
\<close>

record tokenizer =
  tok_chat_template :: "message list \<Rightarrow> string"
  tok_chat_template_len :: "message list \<Rightarrow> nat"
  tok_call :: "string \<Rightarrow> int list \<times> int list"
  tok_encode :: "string \<Rightarrow> int list"
  pad_token_id :: int

text \<open>
  \<open>proc_call images prompt\<close> is
  \<^verbatim>\<open>processor(images, [prompt], add_special_tokens=False, return_tensors="pt")\<close>: row 0 of
  \<open>input_ids\<close> and of \<open>attention_mask\<close>, and what is left in \<open>model_inputs\<close> under
  \<^verbatim>\<open>image_grid_thw\<close>. \<open>image_processor_class\<close> is
  \<^verbatim>\<open>processor.image_processor.__class__.__name__\<close>.
\<close>

type_synonym grid = "int list list"

record processor =
  proc_chat_template :: "message list \<Rightarrow> string"
  proc_chat_template_len :: "message list \<Rightarrow> nat"
  proc_call :: "pil_image list \<Rightarrow> string \<Rightarrow> error + (int list \<times> int list \<times> grid option)"
  image_processor_class :: string

text \<open>
  \<open>open_path\<close> and \<open>open_bytes\<close> are \<^verbatim>\<open>Image.open\<close> on a path and on a
  \<^verbatim>\<open>BytesIO\<close> (\<open>None\<close> when it raises). \<open>scaled_size bound (w, h)\<close> is the pair
  \<^verbatim>\<open>int(w * f), int(h * f)\<close> for \<^verbatim>\<open>f = math.sqrt(bound / (w * h))\<close>, computed by Python in
  double precision. \<open>resize\<close> and \<open>convert_rgb\<close> are PIL's \<^verbatim>\<open>image.resize\<close> and
  \<^verbatim>\<open>image.convert("RGB")\<close>.
\<close>

record imaging =
  open_path :: "string \<Rightarrow> pil_image option"
  open_bytes :: "bytes \<Rightarrow> pil_image option"
  scaled_size :: "int \<Rightarrow> nat \<times> nat \<Rightarrow> nat \<times> nat"
  resize :: "pil_image \<Rightarrow> nat \<times> nat \<Rightarrow> error + pil_image"
  convert_rgb :: "pil_image \<Rightarrow> pil_image"

section \<open>Configuration\<close>

text \<open>
  The attributes \<^verbatim>\<open>__init__\<close> stores, with the libraries in reach of the object.
  \<open>max_prompt_length\<close> is a length budget and is compared with lengths only, so it is
  a natural number. \<open>format_prompt\<close> is the text read from the template file, if any;
  \<open>render_template t p\<close> is jinja2's \<^verbatim>\<open>Template(t.strip()).render(content=p)\<close>.
  \<open>get_rope_index\<close> is the rotary index routine of
  \<^verbatim>\<open>verl/models/transformers/qwen2_vl.py\<close>, taken as a parameter: it consumes the
  token ids, the grid descriptor and the attention mask and returns the rows of the
  position array.
\<close>

record config =
  tokenizer :: tokenizer
  processor :: "processor option"
  prompt_key :: string
  answer_key :: string
  image_key :: string
  max_prompt_length :: nat
  truncation :: string
  format_prompt :: "string option"
  max_pixels :: "int option"
  min_pixels :: "int option"
  filter_overlong_prompts :: bool
  imaging :: imaging
  render_template :: "string \<Rightarrow> string \<Rightarrow> string"
  get_rope_index :: "int list \<Rightarrow> grid option \<Rightarrow> int list \<Rightarrow> int list list"

text \<open>The defaults of both constructors' signatures for the two pixel bounds.\<close>

definition default_max_pixels :: "int option" where
  "default_max_pixels = None"

definition default_min_pixels :: "int option" where
  "default_min_pixels = None"

section \<open>\<^verbatim>\<open>process_image\<close>\<close>

definition open_image :: "imaging \<Rightarrow> image_ref \<Rightarrow> error + pil_image" where
  "open_image io img =
     (case img of
        ImgPath p \<Rightarrow> (case open_path io p of None \<Rightarrow> Inl DecodeError | Some im \<Rightarrow> Inr im)
      | ImgDict entry \<Rightarrow>
          (case entry of
             None \<Rightarrow> Inl (KeyError ''bytes'')
           | Some b \<Rightarrow> (case open_bytes io b of None \<Rightarrow> Inl DecodeError | Some im \<Rightarrow> Inr im))
      | ImgBytes b \<Rightarrow> (case open_bytes io b of None \<Rightarrow> Inl DecodeError | Some im \<Rightarrow> Inr im)
      | ImgObject im \<Rightarrow> Inr im)"

text \<open>
  \<^verbatim>\<open>(image.width * image.height) > max_pixels\<close> and the same with \<^verbatim>\<open><\<close>: comparing an
  integer with \<open>None\<close> raises \<^verbatim>\<open>TypeError\<close> in Python 3.
\<close>

definition pixels_gt :: "nat \<Rightarrow> int option \<Rightarrow> error + bool" where
  "pixels_gt n bound = (case bound of None \<Rightarrow> Inl TypeError | Some b \<Rightarrow> Inr (int n > b))"

definition pixels_lt :: "nat \<Rightarrow> int option \<Rightarrow> error + bool" where
  "pixels_lt n bound = (case bound of None \<Rightarrow> Inl TypeError | Some b \<Rightarrow> Inr (int n < b))"

text \<open>
  The body of either \<^verbatim>\<open>if\<close>: the quotient raises on a pixel count of zero,
  \<^verbatim>\<open>math.sqrt\<close> raises on a negative quotient, and then the image is resized to the
  truncated dimensions.
\<close>

definition rescale :: "imaging \<Rightarrow> int \<Rightarrow> pil_image \<Rightarrow> error + pil_image" where
  "rescale io bound im =
     (if width im * height im = 0 then Inl ZeroDivisionError
      else if bound < 0 then Inl ValueError
      else resize io im (scaled_size io bound (width im, height im)))"

definition process_image :: "imaging \<Rightarrow> image_ref \<Rightarrow> int option \<Rightarrow> int option \<Rightarrow> error + pil_image" where
  "process_image io img min_px max_px =
     and_then (open_image io img) (\<lambda>im0.
     and_then (pixels_gt (width im0 * height im0) max_px) (\<lambda>too_big.
     and_then (if too_big then rescale io (the max_px) im0 else Inr im0) (\<lambda>im1.
     and_then (pixels_lt (width im1 * height im1) min_px) (\<lambda>too_small.
     and_then (if too_small then rescale io (the min_px) im1 else Inr im1) (\<lambda>im2.
     Inr (if mode im2 \<noteq> ''RGB'' then convert_rgb io im2 else im2))))))"

text \<open>The list comprehension over \<open>raw_image_data\<close>: the first failing image ends it.\<close>

fun process_images :: "imaging \<Rightarrow> int option \<Rightarrow> int option \<Rightarrow> image_ref list \<Rightarrow> error + pil_image list" where
  "process_images io min_px max_px [] = Inr []"
| "process_images io min_px max_px (img # rest) =
     and_then (process_image io img min_px max_px) (\<lambda>im.
     and_then (process_images io min_px max_px rest) (\<lambda>ims. Inr (im # ims)))"

section \<open>\<^verbatim>\<open>_build_messages\<close>\<close>

text \<open>
  \<^verbatim>\<open>if self.format_prompt:\<close> is false for \<open>None\<close> and for the empty string; otherwise
  the template is rendered with the raw prompt as \<^verbatim>\<open>content\<close>.
\<close>

definition effective_prompt :: "config \<Rightarrow> string \<Rightarrow> string" where
  "effective_prompt cfg prompt_str =
     (case format_prompt cfg of
        None \<Rightarrow> prompt_str
      | Some t \<Rightarrow> if t = [] then prompt_str else render_template cfg t prompt_str)"

text \<open>
  One round of the loop over \<^verbatim>\<open>enumerate(prompt_str.split("<image>"))\<close>: an image part
  unless the index is 0, then a text part unless the segment is empty.
\<close>

definition append_segment :: "part list \<Rightarrow> nat \<times> string \<Rightarrow> part list" where
  "append_segment content_list ic =
     (let with_image = (if fst ic \<noteq> 0 then content_list @ [ImagePart] else content_list)
      in if snd ic \<noteq> [] then with_image @ [TextPart (snd ic)] else with_image)"

definition content_list_of :: "string list \<Rightarrow> part list" where
  "content_list_of segments = foldl append_segment [] (enumerate 0 segments)"

text \<open>
  The prompt of a record is a \<^verbatim>\<open>str\<close>, as the source annotates it; a missing prompt key
  is the \<^verbatim>\<open>KeyError\<close> of \<^verbatim>\<open>example[self.prompt_key]\<close>.
\<close>

definition build_messages :: "config \<Rightarrow> example \<Rightarrow> error + message list" where
  "build_messages cfg ex =
     (case ex (prompt_key cfg) of
        None \<Rightarrow> Inl (KeyError (prompt_key cfg))
      | Some v \<Rightarrow>
          (case v of
             VStr p \<Rightarrow>
               (let prompt_str = effective_prompt cfg p
                in if ex (image_key cfg) \<noteq> None
                   then Inr [\<lparr>role = ''user'',
                              content = Parts (content_list_of (str_split prompt_str image_marker))\<rparr>]
                   else Inr [\<lparr>role = ''user'', content = Plain prompt_str\<rparr>])
           | _ \<Rightarrow> Inl TypeError))"

text \<open>
  The content parts as the specification words them: for segment 0 a text part if it is
  not empty; for each later segment an image part, then a text part if it is not empty.
\<close>

definition segment_parts :: "string \<Rightarrow> part list" where
  "segment_parts seg = (if seg \<noteq> [] then [TextPart seg] else [])"

fun spec_content_parts :: "string list \<Rightarrow> part list" where
  "spec_content_parts [] = []"
| "spec_content_parts (seg0 # later) =
     segment_parts seg0 @ concat (map (\<lambda>seg. ImagePart # segment_parts seg) later)"

definition image_part_count :: "part list \<Rightarrow> nat" where
  "image_part_count ps = length (filter (\<lambda>p. p = ImagePart) ps)"

section \<open>\<^verbatim>\<open>_filter_overlong_prompts\<close> and the construction of \<^verbatim>\<open>RLHFDataset\<close>\<close>

definition chat_template_len :: "config \<Rightarrow> message list \<Rightarrow> nat" where
  "chat_template_len cfg messages =
     (case processor cfg of
        Some pr \<Rightarrow> proc_chat_template_len pr messages
      | None \<Rightarrow> tok_chat_template_len (tokenizer cfg) messages)"

definition filter_overlong_prompts_row :: "config \<Rightarrow> example \<Rightarrow> error + bool" where
  "filter_overlong_prompts_row cfg ex =
     and_then (build_messages cfg ex) (\<lambda>messages.
     Inr (chat_template_len cfg messages \<le> max_prompt_length cfg))"

text \<open>
  \<^verbatim>\<open>Dataset.filter\<close>: the rows for which the function returns true, in order; an
  exception raised for a row ends the construction.
\<close>

fun filter_rows :: "(example \<Rightarrow> error + bool) \<Rightarrow> example list \<Rightarrow> error + example list" where
  "filter_rows f [] = Inr []"
| "filter_rows f (ex # rows) =
     and_then (f ex) (\<lambda>keep.
     and_then (filter_rows f rows) (\<lambda>kept. Inr (if keep then ex # kept else kept)))"

text \<open>
  \<^verbatim>\<open>RLHFDataset.__init__\<close> after \<^verbatim>\<open>load_dataset\<close> has returned \<open>rows\<close>: the value of
  \<^verbatim>\<open>self.dataset\<close>.
\<close>

definition RLHFDataset_init :: "config \<Rightarrow> example list \<Rightarrow> error + example list" where
  "RLHFDataset_init cfg rows =
     (if filter_overlong_prompts cfg
      then filter_rows (filter_overlong_prompts_row cfg) rows
      else Inr rows)"

definition RLHFDataset_len :: "example list \<Rightarrow> nat" where
  "RLHFDataset_len dataset = length dataset"

section \<open>The construction of \<^verbatim>\<open>RLHFSelfDataset\<close>\<close>

text \<open>\<^verbatim>\<open>os.path.join\<close> of two components (POSIX).\<close>

definition path_join :: "string \<Rightarrow> string \<Rightarrow> string" where
  "path_join a b =
     (if take 1 b = ''/'' then b
      else if a = [] \<or> last a = CHR ''/'' then a @ b
      else a @ ''/'' @ b)"

text \<open>\<^verbatim>\<open>ele[key]\<close> on a parsed JSON value: only an object can be indexed by a string.\<close>

definition json_get :: "json \<Rightarrow> string \<Rightarrow> error + json" where
  "json_get ele k =
     (case ele of
        JObj kvs \<Rightarrow> (case map_of kvs k of None \<Rightarrow> Inl (KeyError k) | Some v \<Rightarrow> Inr v)
      | _ \<Rightarrow> Inl TypeError)"

text \<open>The operand of a string concatenation: anything but a string raises.\<close>

definition json_str :: "json \<Rightarrow> error + string" where
  "json_str v = (case v of JStr s \<Rightarrow> Inr s | _ \<Rightarrow> Inl TypeError)"

text \<open>
  One round of the loop over \<open>temp_annotations\<close>. \<open>py_str\<close> is Python's builtin
  \<^verbatim>\<open>str\<close> on a parsed JSON value; an \<open>image_root\<close> of \<open>None\<close> makes
  \<^verbatim>\<open>os.path.join\<close> raise.
\<close>

definition new_ele :: "(json \<Rightarrow> string) \<Rightarrow> string option \<Rightarrow> json \<Rightarrow> error + example" where
  "new_ele py_str image_root ele =
     and_then (json_get ele ''img_id'') (\<lambda>img_id.
     and_then (json_str img_id) (\<lambda>img_id_str.
     and_then (case image_root of
                 None \<Rightarrow> Inl TypeError
               | Some root \<Rightarrow> Inr (path_join root (img_id_str @ ''_origin.png''))) (\<lambda>path.
     and_then (json_get ele ''question'') (\<lambda>question.
     and_then (json_str question) (\<lambda>question_str.
     and_then (json_get ele ''answer'') (\<lambda>answer.
     and_then (json_get ele ''location'') (\<lambda>location.
     Inr [''images'' \<mapsto> VImages [ImgPath path],
          ''problem'' \<mapsto> VStr (''<image>'' @ question_str),
          ''answer'' \<mapsto> VStr (py_str answer),
          ''location'' \<mapsto> VJson location])))))))"

fun new_eles :: "(json \<Rightarrow> string) \<Rightarrow> string option \<Rightarrow> json list \<Rightarrow> error + example list" where
  "new_eles py_str image_root [] = Inr []"
| "new_eles py_str image_root (ele # rest) =
     and_then (new_ele py_str image_root ele) (\<lambda>e.
     and_then (new_eles py_str image_root rest) (\<lambda>es. Inr (e # es)))"

text \<open>
  What \<^verbatim>\<open>for ele in temp_annotations\<close> iterates over: the elements of an array, the
  keys of an object, the characters of a string; nothing else can be iterated.
\<close>

definition json_iter :: "json \<Rightarrow> error + json list" where
  "json_iter v =
     (case v of
        JArr eles \<Rightarrow> Inr eles
      | JObj kvs \<Rightarrow> Inr (map (\<lambda>kv. JStr (fst kv)) kvs)
      | JStr s \<Rightarrow> Inr (map (\<lambda>c. JStr [c]) s)
      | _ \<Rightarrow> Inl TypeError)"

text \<open>
  \<^verbatim>\<open>RLHFSelfDataset.__init__\<close> after \<^verbatim>\<open>json.load\<close> has returned
  \<open>temp_annotations\<close>: the value of \<^verbatim>\<open>self.dataset\<close>. The filter is commented out in
  the source, so the configuration plays no part.
\<close>

definition RLHFSelfDataset_init :: "(json \<Rightarrow> string) \<Rightarrow> string option \<Rightarrow> json \<Rightarrow> error + example list" where
  "RLHFSelfDataset_init py_str image_root temp_annotations =
     and_then (json_iter temp_annotations) (new_eles py_str image_root)"

definition RLHFSelfDataset_len :: "example list \<Rightarrow> nat" where
  "RLHFSelfDataset_len dataset = length dataset"

section \<open>\<^verbatim>\<open>__getitem__\<close>\<close>

subsection \<open>Encoding the prompt\<close>

text \<open>
  \<^verbatim>\<open>for image in raw_image_data\<close>: a list gives its elements and a string its
  characters, each of them a path for \<^verbatim>\<open>process_image\<close>; a value of any other kind
  is no sequence of image references.
\<close>

definition iter_images :: "pyval \<Rightarrow> error + image_ref list" where
  "iter_images raw_image_data =
     (case raw_image_data of
        VImages imgs \<Rightarrow> Inr imgs
      | VStr s \<Rightarrow> Inr (map (\<lambda>c. ImgPath [c]) s)
      | _ \<Rightarrow> Inl TypeError)"

text \<open>
  The two branches of \<^verbatim>\<open>if self.image_key in example\<close>. The dictionary is returned
  as the branch leaves it, also when the branch raises: the image key is popped before
  the images are processed, and \<^verbatim>\<open>multi_modal_data\<close> is stored after the processor
  has returned. The result is the prompt, \<open>input_ids\<close>, \<open>attention_mask\<close> and
  \<^verbatim>\<open>model_inputs.get("image_grid_thw")\<close>.
\<close>

definition encode_inputs ::
  "config \<Rightarrow> example \<Rightarrow> message list \<Rightarrow>
     example \<times> (error + (string \<times> int list \<times> int list \<times> grid option))" where
  "encode_inputs cfg ex messages =
     (case ex (image_key cfg) of
        Some raw_image_data \<Rightarrow>
          (case processor cfg of
             None \<Rightarrow> (ex, Inl AttributeError)
           | Some pr \<Rightarrow>
               (let prompt = proc_chat_template pr messages;
                    ex1 = ex(image_key cfg := None)
                in case and_then (iter_images raw_image_data)
                          (process_images (imaging cfg) (min_pixels cfg) (max_pixels cfg)) of
                     Inl e \<Rightarrow> (ex1, Inl e)
                   | Inr images \<Rightarrow>
                       (case proc_call pr images prompt of
                          Inl e \<Rightarrow> (ex1, Inl e)
                        | Inr (input_ids, attention_mask, image_grid_thw) \<Rightarrow>
                            (ex1(''multi_modal_data'' \<mapsto> VMultiModal raw_image_data),
                             Inr (prompt, input_ids, attention_mask, image_grid_thw)))))
      | None \<Rightarrow>
          (let prompt = tok_chat_template (tokenizer cfg) messages
           in (ex, Inr (prompt, fst (tok_call (tokenizer cfg) prompt),
                        snd (tok_call (tokenizer cfg) prompt), None))))"

subsection \<open>Position ids\<close>

fun cumsum_from :: "int \<Rightarrow> int list \<Rightarrow> int list" where
  "cumsum_from acc [] = []"
| "cumsum_from acc (x # xs) = (acc + x) # cumsum_from (acc + x) xs"

definition cumsum :: "int list \<Rightarrow> int list" where
  "cumsum xs = cumsum_from 0 xs"

text \<open>\<^verbatim>\<open>torch.clip(attention_mask.cumsum(dim=0) - 1, min=0, max=None)\<close>\<close>

definition clip_cumsum :: "int list \<Rightarrow> int list" where
  "clip_cumsum attention_mask = map (\<lambda>s. max 0 (s - 1)) (cumsum attention_mask)"

definition uses_mrope :: "config \<Rightarrow> bool" where
  "uses_mrope cfg =
     (case processor cfg of
        None \<Rightarrow> False
      | Some pr \<Rightarrow> image_processor_class pr = ''Qwen2VLImageProcessor'')"

definition position_ids_of :: "config \<Rightarrow> int list \<Rightarrow> grid option \<Rightarrow> int list \<Rightarrow> tensor" where
  "position_ids_of cfg input_ids image_grid_thw attention_mask =
     (if uses_mrope cfg
      then T2 (get_rope_index cfg input_ids image_grid_thw attention_mask)
      else T1 (clip_cumsum attention_mask))"

subsection \<open>Padding and truncation\<close>

text \<open>
  Modelled from the spec: \<^verbatim>\<open>VF.postprocess_data\<close> lives in
  \<^verbatim>\<open>verl/utils/torch_functional.py\<close>, which is not among the sources. This is the one
  routine its step 6 applies to each sequence: left-padded with the pad value to exactly
  \<open>max_length\<close> when shorter; when longer, \<open>left\<close> drops from the front, \<open>right\<close>
  drops from the end and \<open>error\<close> is fatal. The specification names no other policy,
  and any other one is fatal here as well.
\<close>

definition pad_or_truncate :: "nat \<Rightarrow> int \<Rightarrow> string \<Rightarrow> int list \<Rightarrow> error + int list" where
  "pad_or_truncate max_length pad_value trunc xs =
     (if length xs < max_length then Inr (replicate (max_length - length xs) pad_value @ xs)
      else if length xs > max_length then
        (if trunc = ''left'' then Inr (drop (length xs - max_length) xs)
         else if trunc = ''right'' then Inr (take max_length xs)
         else Inl TruncationError)
      else Inr xs)"

text \<open>
  Modelled from the spec: the rows of a tensor with two axes, each padded or truncated
  along the last axis by the routine above.
\<close>

fun pad_or_truncate_rows :: "nat \<Rightarrow> int \<Rightarrow> string \<Rightarrow> int list list \<Rightarrow> error + int list list" where
  "pad_or_truncate_rows max_length pad_value trunc [] = Inr []"
| "pad_or_truncate_rows max_length pad_value trunc (row # rows) =
     and_then (pad_or_truncate max_length pad_value trunc row) (\<lambda>r.
     and_then (pad_or_truncate_rows max_length pad_value trunc rows) (\<lambda>rs. Inr (r # rs)))"

text \<open>
  Modelled from the spec: \<^verbatim>\<open>VF.postprocess_data\<close> with \<^verbatim>\<open>left_pad=True\<close>, absent
  from the sources as said above. The pad value of \<open>input_ids\<close> is the tokenizer's pad
  id, that of \<open>attention_mask\<close> and of \<open>position_ids\<close> is 0, and \<open>position_ids\<close> keeps
  its number of axes.
\<close>

definition postprocess_data ::
  "int list \<Rightarrow> int list \<Rightarrow> tensor \<Rightarrow> nat \<Rightarrow> int \<Rightarrow> string \<Rightarrow> error + (int list \<times> int list \<times> tensor)" where
  "postprocess_data input_ids attention_mask position_ids max_length pad_id trunc =
     and_then (pad_or_truncate max_length pad_id trunc input_ids) (\<lambda>ids.
     and_then (pad_or_truncate max_length 0 trunc attention_mask) (\<lambda>mask.
     and_then (case position_ids of
                 T1 row \<Rightarrow> and_then (pad_or_truncate max_length 0 trunc row) (\<lambda>r. Inr (T1 r))
               | T2 rows \<Rightarrow> and_then (pad_or_truncate_rows max_length 0 trunc rows) (\<lambda>rs. Inr (T2 rs)))
       (\<lambda>pos. Inr (ids, mask, pos))))"

subsection \<open>The raw prompt ids\<close>

text \<open>
  The slice \<^verbatim>\<open>xs[-n:]\<close> for \<open>n \<ge> 0\<close>: \<^verbatim>\<open>-0\<close> is \<open>0\<close>, so \<^verbatim>\<open>xs[-0:]\<close> is the whole
  list; otherwise it is the last \<open>n\<close> elements (all of them when there are fewer).
\<close>

definition slice_last :: "nat \<Rightarrow> 'a list \<Rightarrow> 'a list" where
  "slice_last n xs = (if n = 0 then xs else drop (length xs - n) xs)"

text \<open>Lines 216 to 222 of the source; a policy that is none of the three changes nothing.\<close>

definition truncate_raw_prompt_ids :: "nat \<Rightarrow> string \<Rightarrow> int list \<Rightarrow> error + int list" where
  "truncate_raw_prompt_ids max_length trunc raw_prompt_ids =
     (if length raw_prompt_ids > max_length then
        (if trunc = ''left'' then Inr (slice_last max_length raw_prompt_ids)
         else if trunc = ''right'' then Inr (take max_length raw_prompt_ids)
         else if trunc = ''error'' then Inl RuntimeError
         else Inr raw_prompt_ids)
      else Inr raw_prompt_ids)"

subsection \<open>The whole transformation\<close>

text \<open>The four local variables that line 224 and the following store.\<close>

record prepared =
  p_input_ids :: "int list"
  p_attention_mask :: "int list"
  p_position_ids :: tensor
  p_raw_prompt_ids :: "int list"

text \<open>Lines 167 to 222: the dictionary as it is left, and the locals or the exception.\<close>

definition prepare :: "config \<Rightarrow> example \<Rightarrow> example \<times> (error + prepared)" where
  "prepare cfg ex =
     (case build_messages cfg ex of
        Inl e \<Rightarrow> (ex, Inl e)
      | Inr messages \<Rightarrow>
          (case encode_inputs cfg ex messages of
             (ex1, Inl e) \<Rightarrow> (ex1, Inl e)
           | (ex1, Inr (prompt, input_ids, attention_mask, image_grid_thw)) \<Rightarrow>
               (ex1,
                and_then (postprocess_data input_ids attention_mask
                            (position_ids_of cfg input_ids image_grid_thw attention_mask)
                            (max_prompt_length cfg) (pad_token_id (tokenizer cfg)) (truncation cfg))
                  (\<lambda>(ids, mask, pos).
                and_then (truncate_raw_prompt_ids (max_prompt_length cfg) (truncation cfg)
                            (tok_encode (tokenizer cfg) prompt))
                  (\<lambda>raw. Inr \<lparr>p_input_ids = ids, p_attention_mask = mask,
                                p_position_ids = pos, p_raw_prompt_ids = raw\<rparr>)))))"

text \<open>
  Lines 224 to 229: four stores, then \<^verbatim>\<open>example.pop(self.answer_key)\<close>, which raises
  when the key is missing, and the store under \<^verbatim>\<open>ground_truth\<close>.
\<close>

definition assemble :: "config \<Rightarrow> example \<Rightarrow> prepared \<Rightarrow> example \<times> error option" where
  "assemble cfg ex p =
     (let ex4 = ex(''input_ids'' \<mapsto> VTensor (T1 (p_input_ids p)),
                   ''attention_mask'' \<mapsto> VTensor (T1 (p_attention_mask p)),
                   ''position_ids'' \<mapsto> VTensor (p_position_ids p),
                   ''raw_prompt_ids'' \<mapsto> VList (p_raw_prompt_ids p))
      in case ex4 (answer_key cfg) of
           None \<Rightarrow> (ex4, Some (KeyError (answer_key cfg)))
         | Some answer \<Rightarrow> ((ex4(answer_key cfg := None))(''ground_truth'' \<mapsto> answer), None))"

text \<open>
  The body of \<^verbatim>\<open>__getitem__\<close> on the dictionary \<open>example\<close>, the same in both classes:
  the dictionary as the call leaves it (on success, the one it returns) and the
  exception, if any.
\<close>

definition getitem_example :: "config \<Rightarrow> example \<Rightarrow> example \<times> error option" where
  "getitem_example cfg ex =
     (case prepare cfg ex of
        (ex1, Inl e) \<Rightarrow> (ex1, Some e)
      | (ex1, Inr p) \<Rightarrow> assemble cfg ex1 p)"

text \<open>\<^verbatim>\<open>self.dataset[index]\<close>: a negative index counts from the end.\<close>

definition list_index :: "'a list \<Rightarrow> int \<Rightarrow> error + nat" where
  "list_index xs i =
     (if 0 \<le> i \<and> i < int (length xs) then Inr (nat i)
      else if i < 0 \<and> - int (length xs) \<le> i then Inr (nat (int (length xs) + i))
      else Inl IndexError)"

text \<open>
  \<^verbatim>\<open>RLHFDataset.__getitem__\<close>. The dataset is a \<^verbatim>\<open>datasets.Dataset\<close>, which builds a
  new dictionary from its table on every access: what the call does to that dictionary
  does not reach the dataset.
\<close>

definition RLHFDataset_getitem :: "config \<Rightarrow> example list \<Rightarrow> int \<Rightarrow> error + example" where
  "RLHFDataset_getitem cfg dataset index =
     and_then (list_index dataset index) (\<lambda>i.
     case getitem_example cfg (dataset ! i) of
       (out, None) \<Rightarrow> Inr out
     | (out, Some e) \<Rightarrow> Inl e)"

text \<open>
  \<^verbatim>\<open>RLHFSelfDataset.__getitem__\<close>. The dataset is the Python list that
  \<^verbatim>\<open>__init__\<close> filled, and \<^verbatim>\<open>self.dataset[index]\<close> is the stored dictionary itself,
  not a copy: every pop and store of the call is made on the stored record. The call
  returns its outcome and the dataset as it leaves it.
\<close>

definition RLHFSelfDataset_getitem ::
  "config \<Rightarrow> example list \<Rightarrow> int \<Rightarrow> (error + example) \<times> example list" where
  "RLHFSelfDataset_getitem cfg dataset index =
     (case list_index dataset index of
        Inl e \<Rightarrow> (Inl e, dataset)
      | Inr i \<Rightarrow>
          (case getitem_example cfg (dataset ! i) of
             (out, None) \<Rightarrow> (Inr out, dataset[i := out])
           | (out, Some e) \<Rightarrow> (Inl e, dataset[i := out])))"

subsection \<open>What the claims speak about\<close>

text \<open>
  The sequences before padding: \<open>input_ids\<close> and \<open>attention_mask\<close> as the tokenizer or
  the processor returns them, and \<open>position_ids\<close> as line 194 and the following derive
  them.
\<close>

definition model_inputs :: "config \<Rightarrow> example \<Rightarrow> error + (int list \<times> int list \<times> tensor)" where
  "model_inputs cfg ex =
     and_then (build_messages cfg ex) (\<lambda>messages.
     and_then (snd (encode_inputs cfg ex messages))
       (\<lambda>(prompt, input_ids, attention_mask, image_grid_thw).
     Inr (input_ids, attention_mask,
          position_ids_of cfg input_ids image_grid_thw attention_mask)))"

text \<open>The final prompt string that \<^verbatim>\<open>tokenizer.encode\<close> is given at line 215.\<close>

definition final_prompt :: "config \<Rightarrow> example \<Rightarrow> error + string" where
  "final_prompt cfg ex =
     and_then (build_messages cfg ex) (\<lambda>messages.
     and_then (snd (encode_inputs cfg ex messages))
       (\<lambda>(prompt, input_ids, attention_mask, image_grid_thw). Inr prompt))"

text \<open>The number of axes of a tensor and its rows along the last axis.\<close>

fun tensor_axes :: "tensor \<Rightarrow> nat" where
  "tensor_axes (T1 row) = 1"
| "tensor_axes (T2 rows) = 2"

fun tensor_rows :: "tensor \<Rightarrow> int list list" where
  "tensor_rows (T1 row) = [row]"
| "tensor_rows (T2 rows) = rows"

text \<open>
  \<open>ys\<close> has length \<open>n\<close> and, when \<open>xs\<close> is shorter than \<open>n\<close>, is \<open>xs\<close> with the pad
  value inserted at the front.
\<close>

definition left_padded :: "nat \<Rightarrow> int \<Rightarrow> int list \<Rightarrow> int list \<Rightarrow> bool" where
  "left_padded n pad_value xs ys \<longleftrightarrow>
     length ys = n \<and> (length xs < n \<longrightarrow> ys = replicate (n - length xs) pad_value @ xs)"

text \<open>
  The keys \<^verbatim>\<open>__getitem__\<close> stores under, and the value a key of the returned
  dictionary holds unless the pop of the answer key has removed it.
\<close>

definition written_keys :: "string set" where
  "written_keys = {''input_ids'', ''attention_mask'', ''position_ids'', ''raw_prompt_ids'',
                   ''ground_truth'', ''multi_modal_data''}"

definition returns_under :: "config \<Rightarrow> example \<Rightarrow> string \<Rightarrow> pyval \<Rightarrow> bool" where
  "returns_under cfg out k v \<longleftrightarrow> (answer_key cfg \<noteq> k \<longrightarrow> out k = Some v)"

text \<open>
  A configuration with the filter flag and with the two lengths the filter measures
  replaced: what \<^verbatim>\<open>__getitem__\<close> returns must not depend on any of them.
\<close>

definition with_filter_settings ::
  "config \<Rightarrow> bool \<Rightarrow> (message list \<Rightarrow> nat) \<Rightarrow> (message list \<Rightarrow> nat) \<Rightarrow> config" where
  "with_filter_settings cfg b f g =
     cfg\<lparr>filter_overlong_prompts := b,
         tokenizer := (tokenizer cfg)\<lparr>tok_chat_template_len := f\<rparr>,
         processor := map_option (\<lambda>pr. pr\<lparr>proc_chat_template_len := g\<rparr>) (processor cfg)\<rparr>"

section \<open>A small configuration for the examples\<close>

text \<open>
  A tokenizer whose token ids are the character codes and whose chat template writes the
  contents out, an image part as \<^verbatim>\<open><|image|>\<close>; a processor that tokenizes the same
  way and reports one grid row per image; images of 4 by 3 pixels in mode RGBA.
\<close>

definition demo_render_part :: "part \<Rightarrow> string" where
  "demo_render_part p = (case p of ImagePart \<Rightarrow> ''<|image|>'' | TextPart t \<Rightarrow> t)"

definition demo_render :: "message list \<Rightarrow> string" where
  "demo_render messages =
     concat (map (\<lambda>m. case content m of
                          Plain t \<Rightarrow> t
                        | Parts ps \<Rightarrow> concat (map demo_render_part ps)) messages)"

definition demo_encode :: "string \<Rightarrow> int list" where
  "demo_encode s = map (\<lambda>c. int (of_char c)) s"

definition demo_tokenizer :: tokenizer where
  "demo_tokenizer =
     \<lparr>tok_chat_template = demo_render,
      tok_chat_template_len = (\<lambda>messages. length (demo_encode (demo_render messages))),
      tok_call = (\<lambda>prompt. (demo_encode prompt, replicate (length prompt) 1)),
      tok_encode = demo_encode,
      pad_token_id = 0\<rparr>"

definition demo_processor :: processor where
  "demo_processor =
     \<lparr>proc_chat_template = demo_render,
      proc_chat_template_len = (\<lambda>messages. length (demo_encode (demo_render messages))),
      proc_call = (\<lambda>images prompt.
         Inr (demo_encode prompt, replicate (length prompt) 1,
              Some (map (\<lambda>im. [1, int (height im), int (width im)]) images))),
      image_processor_class = ''Qwen2VLImageProcessorFast''\<rparr>"

definition demo_image :: pil_image where
  "demo_image = \<lparr>width = 4, height = 3, mode = ''RGBA''\<rparr>"

definition demo_imaging :: imaging where
  "demo_imaging =
     \<lparr>open_path = (\<lambda>p. Some demo_image),
      open_bytes = (\<lambda>b. Some demo_image),
      scaled_size = (\<lambda>bound wh. wh),
      resize = (\<lambda>im wh. Inr (im\<lparr>width := fst wh, height := snd wh\<rparr>)),
      convert_rgb = (\<lambda>im. im\<lparr>mode := ''RGB''\<rparr>)\<rparr>"

definition demo_config :: config where
  "demo_config =
     \<lparr>tokenizer = demo_tokenizer,
      processor = Some demo_processor,
      prompt_key = ''problem'',
      answer_key = ''answer'',
      image_key = ''images'',
      max_prompt_length = 8,
      truncation = ''error'',
      format_prompt = None,
      max_pixels = Some 100,
      min_pixels = Some 1,
      filter_overlong_prompts = True,
      imaging = demo_imaging,
      render_template = (\<lambda>t p. t @ p),
      get_rope_index = (\<lambda>input_ids image_grid_thw attention_mask.
         [attention_mask, attention_mask, attention_mask])\<rparr>"

definition demo_text_record :: example where
  "demo_text_record = [''problem'' \<mapsto> VStr ''2+2='', ''answer'' \<mapsto> VStr ''4'']"

definition demo_image_record :: example where
  "demo_image_record =
     [''images'' \<mapsto> VImages [ImgPath ''a.png''],
      ''problem'' \<mapsto> VStr ''<image>x'',
      ''answer'' \<mapsto> VStr ''4'',
      ''location'' \<mapsto> VJson (JArr [JInt 56, JInt 511])]"

text \<open>Python's \<^verbatim>\<open>str\<close> on the JSON values the examples use.\<close>

fun demo_decimal :: "nat \<Rightarrow> string" where
  "demo_decimal n =
     (if n < 10 then [''0123456789'' ! n]
      else demo_decimal (n div 10) @ [''0123456789'' ! (n mod 10)])"

definition demo_str :: "json \<Rightarrow> string" where
  "demo_str v =
     (case v of
        JStr s \<Rightarrow> s
      | JInt i \<Rightarrow> (if i < 0 then ''-'' @ demo_decimal (nat (- i)) else demo_decimal (nat i))
      | JFloat literal \<Rightarrow> literal
      | JBool b \<Rightarrow> (if b then ''True'' else ''False'')
      | _ \<Rightarrow> ''None'')"

definition demo_annotations :: json where
  "demo_annotations =
     JArr [JObj [(''img_id'', JStr ''02438''),
                 (''question'', JStr ''x''),
                 (''answer'', JInt 40),
                 (''location'', JArr [JInt 56, JInt 511])]]"

definition demo_self_record :: example where
  "demo_self_record =
     [''images'' \<mapsto> VImages [ImgPath ''/data/02438_origin.png''],
      ''problem'' \<mapsto> VStr ''<image>x'',
      ''answer'' \<mapsto> VStr ''40'',
      ''location'' \<mapsto> VJson (JArr [JInt 56, JInt 511])]"

definition demo_long_record :: example where
  "demo_long_record = [''problem'' \<mapsto> VStr ''123456789'', ''answer'' \<mapsto> VStr ''0'']"

text \<open>The same configuration with the image processor class that selects the rotary indices.\<close>

definition demo_mrope_config :: config where
  "demo_mrope_config =
     demo_config\<lparr>processor := Some (demo_processor\<lparr>image_processor_class := ''Qwen2VLImageProcessor''\<rparr>),
                 max_prompt_length := 12\<rparr>"

section \<open>The message builder\<close>

lemma foldl_append_segment:
  "0 < n \<Longrightarrow> foldl append_segment acc (enumerate n segs) =
     acc @ concat (map (\<lambda>seg. ImagePart # segment_parts seg) segs)"
  by (induction segs arbitrary: acc n) (simp_all add: append_segment_def segment_parts_def)

lemma content_list_of_spec: "content_list_of segs = spec_content_parts segs"
proof (cases segs)
  case Nil
  then show ?thesis by (simp add: content_list_of_def)
next
  case (Cons seg0 later)
  have "foldl append_segment [] (enumerate 0 (seg0 # later)) =
        foldl append_segment (segment_parts seg0) (enumerate (Suc 0) later)"
    by (simp add: append_segment_def segment_parts_def)
  then show ?thesis
    using Cons by (simp add: content_list_of_def foldl_append_segment)
qed

lemma length_split_acc: "length (split_acc sep acc s) = Suc (count_occurrences sep s)"
  by (induction sep acc s rule: split_acc.induct) simp_all

lemma length_str_split: "length (str_split s sep) = Suc (count_occurrences sep s)"
  by (simp add: str_split_def length_split_acc)

lemma image_part_count_append:
  "image_part_count (xs @ ys) = image_part_count xs + image_part_count ys"
  by (simp add: image_part_count_def)

lemma image_part_count_later:
  "image_part_count (concat (map (\<lambda>seg. ImagePart # segment_parts seg) segs)) = length segs"
  by (induction segs) (simp_all add: image_part_count_def segment_parts_def)

lemma image_part_count_spec:
  "image_part_count (spec_content_parts segs) = length segs - 1"
proof (cases segs)
  case Nil
  then show ?thesis by (simp add: image_part_count_def)
next
  case (Cons seg0 later)
  have "image_part_count (segment_parts seg0) = 0"
    by (simp add: image_part_count_def segment_parts_def)
  then show ?thesis
    using Cons by (simp add: image_part_count_append image_part_count_later)
qed

text \<open>
  C4. For a record with a prompt string, \<^verbatim>\<open>_build_messages\<close> returns exactly one
  message, of role user. Without an image field its content is the prompt (rendered
  through the template when one is set) as it is. With an image field its content is the
  part list of the segments the prompt splits into on \<^verbatim>\<open><image>\<close>: a text part for
  segment 0 if it is not empty, then for each later segment an image part followed by a
  text part if the segment is not empty; the list holds as many image parts as the
  prompt has occurrences of the marker.
\<close>

theorem build_messages_single_user_message:
  assumes "ex (prompt_key cfg) = Some (VStr p)"
  shows "\<exists>c. build_messages cfg ex = Inr [\<lparr>role = ''user'', content = c\<rparr>] \<and>
           (ex (image_key cfg) = None \<longrightarrow> c = Plain (effective_prompt cfg p)) \<and>
           (ex (image_key cfg) \<noteq> None \<longrightarrow>
              c = Parts (spec_content_parts (str_split (effective_prompt cfg p) image_marker)) \<and>
              image_part_count (spec_content_parts (str_split (effective_prompt cfg p) image_marker))
                = count_occurrences image_marker (effective_prompt cfg p))"
proof (cases "ex (image_key cfg)")
  case None
  then show ?thesis using assms by (simp add: build_messages_def)
next
  case (Some v)
  have "image_part_count (spec_content_parts (str_split (effective_prompt cfg p) image_marker))
          = count_occurrences image_marker (effective_prompt cfg p)"
    by (simp add: image_part_count_spec length_str_split)
  then show ?thesis
    using assms Some by (simp add: build_messages_def content_list_of_spec)
qed

theorem build_messages_single_user_message_witness:
  "demo_image_record (prompt_key demo_config) = Some (VStr ''<image>x'') \<and>
   build_messages demo_config demo_image_record =
     Inr [\<lparr>role = ''user'', content = Parts [ImagePart, TextPart ''x'']\<rparr>] \<and>
   count_occurrences image_marker ''<image>x'' = 1"
proof -
  have h: "demo_image_record (prompt_key demo_config) = Some (VStr ''<image>x'')"
    by (simp add: demo_image_record_def demo_config_def)
  have i: "demo_image_record (image_key demo_config) \<noteq> None"
    by (simp add: demo_image_record_def demo_config_def)
  have e: "effective_prompt demo_config ''<image>x'' = ''<image>x''"
    by (simp add: effective_prompt_def demo_config_def)
  have s: "spec_content_parts (str_split ''<image>x'' image_marker) = [ImagePart, TextPart ''x'']"
    by (simp add: str_split_def image_marker_def segment_parts_def)
  have c: "image_part_count [ImagePart, TextPart ''x''] = 1"
    by (simp add: image_part_count_def)
  from build_messages_single_user_message [of demo_image_record demo_config "''<image>x''", OF h]
  obtain c where b: "build_messages demo_config demo_image_record = Inr [\<lparr>role = ''user'', content = c\<rparr>]"
    and r: "demo_image_record (image_key demo_config) \<noteq> None \<longrightarrow>
              c = Parts (spec_content_parts (str_split (effective_prompt demo_config ''<image>x'') image_marker)) \<and>
              image_part_count (spec_content_parts (str_split (effective_prompt demo_config ''<image>x'') image_marker))
                = count_occurrences image_marker (effective_prompt demo_config ''<image>x'')"
    by blast
  from r i have "c = Parts [ImagePart, TextPart ''x'']"
    and "count_occurrences image_marker ''<image>x'' = 1"
    by (simp_all only: e s c simp_thms)
  with b h show ?thesis by simp
qed


section \<open>Results in the error type\<close>

lemma and_then_Inr_iff: "and_then r f = Inr y \<longleftrightarrow> (\<exists>x. r = Inr x \<and> f x = Inr y)"
  by (cases r) (simp_all add: and_then_def)

lemma and_then_Inr [simp]: "and_then (Inr x) f = f x"
  by (simp add: and_then_def)

lemma and_then_Inl [simp]: "and_then (Inl e) f = Inl e"
  by (simp add: and_then_def)

section \<open>The construction of the annotation dataset\<close>

lemma new_ele_fields:
  assumes "new_ele py_str image_root ele = Inr e"
  shows "\<exists>root img_id question answer location.
           image_root = Some root \<and>
           json_get ele ''img_id'' = Inr (JStr img_id) \<and>
           json_get ele ''question'' = Inr (JStr question) \<and>
           json_get ele ''answer'' = Inr answer \<and>
           json_get ele ''location'' = Inr location \<and>
           e = [''images'' \<mapsto> VImages [ImgPath (path_join root (img_id @ ''_origin.png''))],
                ''problem'' \<mapsto> VStr (''<image>'' @ question),
                ''answer'' \<mapsto> VStr (py_str answer),
                ''location'' \<mapsto> VJson location]"
proof -
  from assms obtain a1 s1 path a2 s2 a3 a4 where
    "json_get ele ''img_id'' = Inr a1" "json_str a1 = Inr s1"
    "(case image_root of None \<Rightarrow> Inl TypeError
      | Some root \<Rightarrow> Inr (path_join root (s1 @ ''_origin.png''))) = Inr path"
    "json_get ele ''question'' = Inr a2" "json_str a2 = Inr s2"
    "json_get ele ''answer'' = Inr a3" "json_get ele ''location'' = Inr a4"
    and e: "e = [''images'' \<mapsto> VImages [ImgPath path],
             ''problem'' \<mapsto> VStr (''<image>'' @ s2),
             ''answer'' \<mapsto> VStr (py_str a3),
             ''location'' \<mapsto> VJson a4]"
    unfolding new_ele_def and_then_Inr_iff by blast
  moreover from this have "a1 = JStr s1" "a2 = JStr s2"
    by (auto simp: json_str_def split: json.splits)
  moreover from calculation obtain root where "image_root = Some root"
    "path = path_join root (s1 @ ''_origin.png'')"
    by (auto split: option.splits)
  ultimately show ?thesis by blast
qed

lemma new_eles_length:
  "new_eles py_str image_root eles = Inr es \<Longrightarrow> length es = length eles"
  by (induction eles arbitrary: es) (auto simp: and_then_Inr_iff)

lemma new_eles_nth:
  "new_eles py_str image_root eles = Inr es \<Longrightarrow> i < length eles \<Longrightarrow>
     new_ele py_str image_root (eles ! i) = Inr (es ! i)"
proof (induction eles arbitrary: es i)
  case Nil
  then show ?case by simp
next
  case (Cons ele rest)
  then obtain e es' where *: "new_ele py_str image_root ele = Inr e"
    "new_eles py_str image_root rest = Inr es'" "es = e # es'"
    by (auto simp: and_then_Inr_iff)
  show ?case
  proof (cases i)
    case 0
    then show ?thesis using * by simp
  next
    case (Suc j)
    then show ?thesis using * Cons.IH [of es' j] Cons.prems(2) by simp
  qed
qed

text \<open>
  C8. When \<^verbatim>\<open>RLHFSelfDataset.__init__\<close> succeeds on an annotation array, the dataset
  has one record per entry, in order, and none is dropped: its length is the number of
  entries. The record of an entry holds, under \<^verbatim>\<open>images\<close>, the single path that
  \<^verbatim>\<open>os.path.join\<close> forms from the image root and the entry's \<^verbatim>\<open>img_id\<close> followed by
  \<^verbatim>\<open>_origin.png\<close>; under \<^verbatim>\<open>problem\<close>, the entry's question after the marker
  \<^verbatim>\<open><image>\<close>; under \<^verbatim>\<open>answer\<close>, \<^verbatim>\<open>str\<close> of the entry's answer; under
  \<^verbatim>\<open>location\<close>, the entry's location as it is.
\<close>

theorem RLHFSelfDataset_init_records:
  assumes "RLHFSelfDataset_init py_str image_root (JArr eles) = Inr dataset"
  shows "RLHFSelfDataset_len dataset = length eles \<and>
         (\<forall>i<length eles. \<exists>root img_id question answer location.
            image_root = Some root \<and>
            json_get (eles ! i) ''img_id'' = Inr (JStr img_id) \<and>
            json_get (eles ! i) ''question'' = Inr (JStr question) \<and>
            json_get (eles ! i) ''answer'' = Inr answer \<and>
            json_get (eles ! i) ''location'' = Inr location \<and>
            dataset ! i =
              [''images'' \<mapsto> VImages [ImgPath (path_join root (img_id @ ''_origin.png''))],
               ''problem'' \<mapsto> VStr (''<image>'' @ question),
               ''answer'' \<mapsto> VStr (py_str answer),
               ''location'' \<mapsto> VJson location])"
proof -
  from assms have n: "new_eles py_str image_root eles = Inr dataset"
    by (simp add: RLHFSelfDataset_init_def json_iter_def)
  have "RLHFSelfDataset_len dataset = length eles"
    using new_eles_length [OF n] by (simp add: RLHFSelfDataset_len_def)
  moreover have "\<exists>root img_id question answer location.
            image_root = Some root \<and>
            json_get (eles ! i) ''img_id'' = Inr (JStr img_id) \<and>
            json_get (eles ! i) ''question'' = Inr (JStr question) \<and>
            json_get (eles ! i) ''answer'' = Inr answer \<and>
            json_get (eles ! i) ''location'' = Inr location \<and>
            dataset ! i =
              [''images'' \<mapsto> VImages [ImgPath (path_join root (img_id @ ''_origin.png''))],
               ''problem'' \<mapsto> VStr (''<image>'' @ question),
               ''answer'' \<mapsto> VStr (py_str answer),
               ''location'' \<mapsto> VJson location]" if "i < length eles" for i
    using new_ele_fields [OF new_eles_nth [OF n that]] .
  ultimately show ?thesis by blast
qed


theorem RLHFSelfDataset_init_records_witness:
  "RLHFSelfDataset_init demo_str (Some ''/data'') demo_annotations = Inr [demo_self_record] \<and>
   RLHFSelfDataset_len [demo_self_record] = 1"
proof -
  have h: "RLHFSelfDataset_init demo_str (Some ''/data'')
             (JArr [JObj [(''img_id'', JStr ''02438''), (''question'', JStr ''x''),
                          (''answer'', JInt 40), (''location'', JArr [JInt 56, JInt 511])]])
           = Inr [demo_self_record]"
    by (simp add: RLHFSelfDataset_init_def json_iter_def new_ele_def json_get_def
        json_str_def path_join_def demo_self_record_def demo_str_def)
  from RLHFSelfDataset_init_records [OF h] h show ?thesis
    by (simp add: demo_annotations_def)
qed

section \<open>The filter at construction time\<close>

lemma filter_rows_Inr:
  "filter_rows f rows = Inr kept \<Longrightarrow>
     (\<forall>ex\<in>set rows. \<exists>b. f ex = Inr b) \<and> kept = filter (\<lambda>ex. f ex = Inr True) rows"
proof (induction rows arbitrary: kept)
  case Nil
  then show ?case by simp
next
  case (Cons ex rows)
  then obtain keep kept' where *: "f ex = Inr keep" "filter_rows f rows = Inr kept'"
    "kept = (if keep then ex # kept' else kept')"
    by (auto simp: and_then_Inr_iff)
  with Cons.IH [of kept'] show ?case by auto
qed

lemma filter_overlong_prompts_row_Inr:
  "filter_overlong_prompts_row cfg ex = Inr b \<longleftrightarrow>
     (\<exists>messages. build_messages cfg ex = Inr messages \<and>
        b = (chat_template_len cfg messages \<le> max_prompt_length cfg))"
  by (auto simp: filter_overlong_prompts_row_def and_then_Inr_iff)

lemma build_messages_cong:
  "prompt_key cfg' = prompt_key cfg \<Longrightarrow> image_key cfg' = image_key cfg \<Longrightarrow>
   format_prompt cfg' = format_prompt cfg \<Longrightarrow> render_template cfg' = render_template cfg \<Longrightarrow>
   build_messages cfg' ex = build_messages cfg ex"
  by (simp add: build_messages_def effective_prompt_def split: option.splits pyval.splits)

lemma getitem_example_ignores_filter:
  "getitem_example (with_filter_settings cfg b f g) ex = getitem_example cfg ex"
proof -
  let ?c = "with_filter_settings cfg b f g"
  have bm: "build_messages ?c ex = build_messages cfg ex"
    by (rule build_messages_cong) (simp_all add: with_filter_settings_def)
  have enc: "encode_inputs ?c ex messages = encode_inputs cfg ex messages" for messages
    by (cases "processor cfg")
       (simp_all add: encode_inputs_def with_filter_settings_def Let_def split: option.splits sum.splits)
  have pos: "position_ids_of ?c ids grid mask = position_ids_of cfg ids grid mask" for ids grid mask
    by (cases "processor cfg") (simp_all add: position_ids_of_def uses_mrope_def with_filter_settings_def)
  have fields: "max_prompt_length ?c = max_prompt_length cfg" "truncation ?c = truncation cfg"
    "pad_token_id (tokenizer ?c) = pad_token_id (tokenizer cfg)"
    "tok_encode (tokenizer ?c) = tok_encode (tokenizer cfg)"
    by (simp_all add: with_filter_settings_def)
  have prep: "prepare ?c ex = prepare cfg ex"
    unfolding prepare_def bm enc pos fields ..
  have ak: "answer_key ?c = answer_key cfg"
    by (simp add: with_filter_settings_def)
  have asm: "assemble ?c ex1 p = assemble cfg ex1 p" for ex1 p
    unfolding assemble_def ak ..
  show ?thesis
    unfolding getitem_example_def prep asm ..
qed


text \<open>
  C6. With \<^verbatim>\<open>filter_overlong_prompts\<close> set, a successful construction of
  \<^verbatim>\<open>RLHFDataset\<close> keeps, in order, exactly the rows whose chat-templated prompt (with the
  generation prompt) is no longer than \<open>max_prompt_length\<close>: a row is dropped if and
  only if that length exceeds the budget. \<^verbatim>\<open>__getitem__\<close> filters nothing: its result
  depends neither on the flag nor on the lengths the filter measures.
\<close>

theorem RLHFDataset_init_filters_overlong:
  assumes "filter_overlong_prompts cfg" and "RLHFDataset_init cfg rows = Inr dataset"
  shows "dataset = filter (\<lambda>ex. case build_messages cfg ex of
                                   Inl e \<Rightarrow> False
                                 | Inr messages \<Rightarrow>
                                     chat_template_len cfg messages \<le> max_prompt_length cfg) rows \<and>
         (\<forall>ex\<in>set rows. \<exists>messages. build_messages cfg ex = Inr messages \<and>
            (ex \<notin> set dataset \<longleftrightarrow> max_prompt_length cfg < chat_template_len cfg messages)) \<and>
         (\<forall>b f g index. RLHFDataset_getitem (with_filter_settings cfg b f g) dataset index =
            RLHFDataset_getitem cfg dataset index)"
proof -
  from assms have fr: "filter_rows (filter_overlong_prompts_row cfg) rows = Inr dataset"
    by (simp add: RLHFDataset_init_def)
  note fr' = filter_rows_Inr [OF fr]
  have ok: "\<exists>messages. build_messages cfg ex = Inr messages" if "ex \<in> set rows" for ex
    using fr' that by (auto simp: filter_overlong_prompts_row_Inr)
  have eq: "(filter_overlong_prompts_row cfg ex = Inr True) =
            (case build_messages cfg ex of Inl e \<Rightarrow> False
             | Inr messages \<Rightarrow> chat_template_len cfg messages \<le> max_prompt_length cfg)" for ex
    by (auto simp: filter_overlong_prompts_row_Inr split: sum.splits)
  have d: "dataset = filter (\<lambda>ex. case build_messages cfg ex of
                                   Inl e \<Rightarrow> False
                                 | Inr messages \<Rightarrow>
                                     chat_template_len cfg messages \<le> max_prompt_length cfg) rows"
    using fr' by (simp add: eq)
  have "\<exists>messages. build_messages cfg ex = Inr messages \<and>
            (ex \<notin> set dataset \<longleftrightarrow> max_prompt_length cfg < chat_template_len cfg messages)"
    if "ex \<in> set rows" for ex
  proof -
    from ok [OF that] obtain messages where m: "build_messages cfg ex = Inr messages" ..
    have "ex \<in> set dataset \<longleftrightarrow> chat_template_len cfg messages \<le> max_prompt_length cfg"
      by (subst d) (simp add: that m)
    with m show ?thesis by auto
  qed
  moreover have "RLHFDataset_getitem (with_filter_settings cfg b f g) dataset index =
            RLHFDataset_getitem cfg dataset index" for b f g index
    by (simp add: RLHFDataset_getitem_def getitem_example_ignores_filter)
  ultimately show ?thesis using d by blast
qed


theorem RLHFDataset_init_filters_overlong_witness:
  "filter_overlong_prompts demo_config \<and>
   RLHFDataset_init demo_config [demo_text_record, demo_long_record] = Inr [demo_text_record] \<and>
   demo_long_record \<in> set [demo_text_record, demo_long_record] \<and>
   demo_long_record \<notin> set [demo_text_record]"
proof -
  have f: "filter_overlong_prompts demo_config"
    by (simp add: demo_config_def)
  have bt: "build_messages demo_config demo_text_record =
              Inr [\<lparr>role = ''user'', content = Plain ''2+2=''\<rparr>]"
    by (simp add: build_messages_def demo_config_def demo_text_record_def effective_prompt_def)
  have bl: "build_messages demo_config demo_long_record =
              Inr [\<lparr>role = ''user'', content = Plain ''123456789''\<rparr>]"
    by (simp add: build_messages_def demo_config_def demo_long_record_def effective_prompt_def)
  have lt: "chat_template_len demo_config [\<lparr>role = ''user'', content = Plain ''2+2=''\<rparr>] = 4"
    by (simp add: chat_template_len_def demo_config_def demo_processor_def demo_encode_def
        demo_render_def)
  have ll: "chat_template_len demo_config [\<lparr>role = ''user'', content = Plain ''123456789''\<rparr>] = 9"
    by (simp add: chat_template_len_def demo_config_def demo_processor_def demo_encode_def
        demo_render_def)
  have L: "max_prompt_length demo_config = 8"
    by (simp add: demo_config_def)
  have i: "RLHFDataset_init demo_config [demo_text_record, demo_long_record] = Inr [demo_text_record]"
    by (simp add: RLHFDataset_init_def f filter_overlong_prompts_row_def bt bl lt ll L)
  have m: "demo_long_record \<in> set [demo_text_record, demo_long_record]"
    by simp
  from RLHFDataset_init_filters_overlong [OF f i] m
  obtain messages where b: "build_messages demo_config demo_long_record = Inr messages"
    and n: "demo_long_record \<notin> set [demo_text_record] \<longleftrightarrow>
           max_prompt_length demo_config < chat_template_len demo_config messages"
    by blast
  from b have "messages = [\<lparr>role = ''user'', content = Plain ''123456789''\<rparr>]"
    by (simp add: bl)
  then have "max_prompt_length demo_config < chat_template_len demo_config messages"
    by (simp add: ll L)
  with n have "demo_long_record \<notin> set [demo_text_record]"
    by blast
  with f i m show ?thesis by blast
qed


section \<open>The structure of a successful call\<close>

lemma getitem_example_success:
  assumes "getitem_example cfg ex = (out, None)"
  shows "\<exists>ex1 p. prepare cfg ex = (ex1, Inr p) \<and> assemble cfg ex1 p = (out, None)"
  using assms by (auto simp: getitem_example_def split: prod.splits sum.splits)

lemma prepare_success:
  assumes "prepare cfg ex = (ex1, Inr p)"
  shows "\<exists>messages prompt ids0 mask0 grid.
           build_messages cfg ex = Inr messages \<and>
           encode_inputs cfg ex messages = (ex1, Inr (prompt, ids0, mask0, grid)) \<and>
           postprocess_data ids0 mask0 (position_ids_of cfg ids0 grid mask0)
             (max_prompt_length cfg) (pad_token_id (tokenizer cfg)) (truncation cfg)
             = Inr (p_input_ids p, p_attention_mask p, p_position_ids p) \<and>
           truncate_raw_prompt_ids (max_prompt_length cfg) (truncation cfg)
             (tok_encode (tokenizer cfg) prompt) = Inr (p_raw_prompt_ids p)"
  using assms
  by (auto simp: prepare_def and_then_Inr_iff split: prod.splits sum.splits)

lemma assemble_success:
  assumes "assemble cfg ex1 p = (out, None)"
  shows "\<exists>answer.
           (ex1(''input_ids'' \<mapsto> VTensor (T1 (p_input_ids p)),
                ''attention_mask'' \<mapsto> VTensor (T1 (p_attention_mask p)),
                ''position_ids'' \<mapsto> VTensor (p_position_ids p),
                ''raw_prompt_ids'' \<mapsto> VList (p_raw_prompt_ids p))) (answer_key cfg) = Some answer \<and>
           out = (ex1(''input_ids'' \<mapsto> VTensor (T1 (p_input_ids p)),
                ''attention_mask'' \<mapsto> VTensor (T1 (p_attention_mask p)),
                ''position_ids'' \<mapsto> VTensor (p_position_ids p),
                ''raw_prompt_ids'' \<mapsto> VList (p_raw_prompt_ids p),
                answer_key cfg := None,
                ''ground_truth'' \<mapsto> answer))"
  using assms by (auto simp: assemble_def Let_def split: option.splits)

lemma assemble_returns:
  assumes "assemble cfg ex1 p = (out, None)"
  shows "returns_under cfg out ''input_ids'' (VTensor (T1 (p_input_ids p)))"
    and "returns_under cfg out ''attention_mask'' (VTensor (T1 (p_attention_mask p)))"
    and "returns_under cfg out ''position_ids'' (VTensor (p_position_ids p))"
    and "returns_under cfg out ''raw_prompt_ids'' (VList (p_raw_prompt_ids p))"
  using assemble_success [OF assms] by (auto simp: returns_under_def)


lemma prepare_model_inputs:
  assumes "prepare cfg ex = (ex1, Inr p)"
  shows "\<exists>prompt ids0 mask0 pos0.
           model_inputs cfg ex = Inr (ids0, mask0, pos0) \<and>
           final_prompt cfg ex = Inr prompt \<and>
           postprocess_data ids0 mask0 pos0
             (max_prompt_length cfg) (pad_token_id (tokenizer cfg)) (truncation cfg)
             = Inr (p_input_ids p, p_attention_mask p, p_position_ids p) \<and>
           truncate_raw_prompt_ids (max_prompt_length cfg) (truncation cfg)
             (tok_encode (tokenizer cfg) prompt) = Inr (p_raw_prompt_ids p)"
proof -
  from prepare_success [OF assms] obtain messages prompt ids0 mask0 grid where
    b: "build_messages cfg ex = Inr messages" and
    e: "encode_inputs cfg ex messages = (ex1, Inr (prompt, ids0, mask0, grid))" and
    pp: "postprocess_data ids0 mask0 (position_ids_of cfg ids0 grid mask0)
             (max_prompt_length cfg) (pad_token_id (tokenizer cfg)) (truncation cfg)
             = Inr (p_input_ids p, p_attention_mask p, p_position_ids p)" and
    tr: "truncate_raw_prompt_ids (max_prompt_length cfg) (truncation cfg)
             (tok_encode (tokenizer cfg) prompt) = Inr (p_raw_prompt_ids p)"
    by blast
  have "model_inputs cfg ex = Inr (ids0, mask0, position_ids_of cfg ids0 grid mask0)"
    by (simp add: model_inputs_def b e)
  moreover have "final_prompt cfg ex = Inr prompt"
    by (simp add: final_prompt_def b e)
  ultimately show ?thesis using pp tr by blast
qed

lemma RLHFDataset_getitem_Inr:
  assumes "RLHFDataset_getitem cfg dataset index = Inr out"
  shows "\<exists>ex\<in>set dataset. getitem_example cfg ex = (out, None)"
proof -
  from assms obtain i where i: "list_index dataset index = Inr i"
    and g: "(case getitem_example cfg (dataset ! i) of
               (out, None) \<Rightarrow> Inr out | (out, Some e) \<Rightarrow> Inl e) = Inr out"
    by (auto simp: RLHFDataset_getitem_def and_then_Inr_iff)
  from i have "i < length dataset"
    by (auto simp: list_index_def split: if_splits)
  moreover from g have "getitem_example cfg (dataset ! i) = (out, None)"
    by (auto split: prod.splits option.splits)
  ultimately show ?thesis by (metis nth_mem)
qed

lemma RLHFSelfDataset_getitem_Inr:
  assumes "fst (RLHFSelfDataset_getitem cfg dataset index) = Inr out"
  shows "\<exists>ex\<in>set dataset. getitem_example cfg ex = (out, None)"
proof -
  from assms obtain i where i: "list_index dataset index = Inr i"
    by (cases "list_index dataset index") (auto simp: RLHFSelfDataset_getitem_def)
  with assms have g: "getitem_example cfg (dataset ! i) = (out, None)"
    by (auto simp: RLHFSelfDataset_getitem_def split: prod.splits option.splits)
  from i have "i < length dataset"
    by (auto simp: list_index_def split: if_splits)
  with g show ?thesis by (metis nth_mem)
qed

section \<open>Padding to the prompt length\<close>

lemma pad_or_truncate_left_padded:
  "pad_or_truncate n pad_value trunc xs = Inr ys \<Longrightarrow> left_padded n pad_value xs ys"
  by (auto simp: pad_or_truncate_def left_padded_def split: if_splits)

lemma pad_or_truncate_rows_left_padded:
  "pad_or_truncate_rows n pad_value trunc rows = Inr rs \<Longrightarrow>
     list_all2 (left_padded n pad_value) rows rs"
proof (induction rows arbitrary: rs)
  case Nil
  then show ?case by simp
next
  case (Cons row rows)
  then obtain r rs' where "pad_or_truncate n pad_value trunc row = Inr r"
    "pad_or_truncate_rows n pad_value trunc rows = Inr rs'" "rs = r # rs'"
    by (auto simp: and_then_Inr_iff)
  with Cons.IH [of rs'] show ?case
    by (simp add: pad_or_truncate_left_padded)
qed

lemma postprocess_data_left_padded:
  assumes "postprocess_data ids0 mask0 pos0 n pad_id trunc = Inr (ids, att, pos)"
  shows "left_padded n pad_id ids0 ids \<and> left_padded n 0 mask0 att \<and>
         tensor_axes pos = tensor_axes pos0 \<and>
         list_all2 (left_padded n 0) (tensor_rows pos0) (tensor_rows pos)"
proof -
  from assms obtain
    i: "pad_or_truncate n pad_id trunc ids0 = Inr ids" and
    m: "pad_or_truncate n 0 trunc mask0 = Inr att" and
    p: "(case pos0 of
           T1 row \<Rightarrow> and_then (pad_or_truncate n 0 trunc row) (\<lambda>r. Inr (T1 r))
         | T2 rows \<Rightarrow> and_then (pad_or_truncate_rows n 0 trunc rows) (\<lambda>rs. Inr (T2 rs)))
        = Inr pos"
    by (auto simp: postprocess_data_def and_then_Inr_iff)
  have "tensor_axes pos = tensor_axes pos0 \<and>
         list_all2 (left_padded n 0) (tensor_rows pos0) (tensor_rows pos)"
  proof (cases pos0)
    case (T1 row)
    with p obtain r where "pad_or_truncate n 0 trunc row = Inr r" "pos = T1 r"
      by (auto simp: and_then_Inr_iff)
    with T1 show ?thesis by (simp add: pad_or_truncate_left_padded)
  next
    case (T2 rows)
    with p obtain rs where "pad_or_truncate_rows n 0 trunc rows = Inr rs" "pos = T2 rs"
      by (auto simp: and_then_Inr_iff)
    with T2 show ?thesis by (simp add: pad_or_truncate_rows_left_padded)
  qed
  with i m show ?thesis by (simp add: pad_or_truncate_left_padded)
qed

text \<open>
  C1. Whenever \<^verbatim>\<open>__getitem__\<close> of either class returns a dictionary, the
  \<open>input_ids\<close>, \<open>attention_mask\<close> and \<open>position_ids\<close> it returns have length
  exactly \<open>max_prompt_length\<close> along the last axis; a sequence that was shorter before
  padding is the old sequence with the padding in front, the tokenizer's pad id for
  \<open>input_ids\<close> and 0 for the other two; and \<open>position_ids\<close> keeps its number of axes
  and of rows. (A tensor is returned under its key unless the answer key is that very
  key, which the final pop then removes.)
\<close>

theorem getitem_fixed_length:
  assumes "RLHFDataset_getitem cfg dataset index = Inr out \<or>
           fst (RLHFSelfDataset_getitem cfg dataset index) = Inr out"
  shows "\<exists>ex ids0 mask0 pos0 ids att pos.
           ex \<in> set dataset \<and>
           model_inputs cfg ex = Inr (ids0, mask0, pos0) \<and>
           left_padded (max_prompt_length cfg) (pad_token_id (tokenizer cfg)) ids0 ids \<and>
           left_padded (max_prompt_length cfg) 0 mask0 att \<and>
           tensor_axes pos = tensor_axes pos0 \<and>
           list_all2 (left_padded (max_prompt_length cfg) 0) (tensor_rows pos0) (tensor_rows pos) \<and>
           returns_under cfg out ''input_ids'' (VTensor (T1 ids)) \<and>
           returns_under cfg out ''attention_mask'' (VTensor (T1 att)) \<and>
           returns_under cfg out ''position_ids'' (VTensor pos)"
proof -
  from assms obtain ex where ex: "ex \<in> set dataset" and g: "getitem_example cfg ex = (out, None)"
    using RLHFDataset_getitem_Inr RLHFSelfDataset_getitem_Inr by blast
  from getitem_example_success [OF g] obtain ex1 p where
    pr: "prepare cfg ex = (ex1, Inr p)" and a: "assemble cfg ex1 p = (out, None)"
    by blast
  from prepare_model_inputs [OF pr] obtain ids0 mask0 pos0 where
    mi: "model_inputs cfg ex = Inr (ids0, mask0, pos0)" and
    pp: "postprocess_data ids0 mask0 pos0
             (max_prompt_length cfg) (pad_token_id (tokenizer cfg)) (truncation cfg)
             = Inr (p_input_ids p, p_attention_mask p, p_position_ids p)"
    by blast
  from postprocess_data_left_padded [OF pp] assemble_returns [OF a] ex mi
  show ?thesis by blast
qed


lemmas getitem_defs = getitem_example_def prepare_def assemble_def build_messages_def
  encode_inputs_def effective_prompt_def content_list_of_def append_segment_def str_split_def
  image_marker_def iter_images_def process_image_def open_image_def pixels_gt_def pixels_lt_def
  rescale_def position_ids_of_def uses_mrope_def clip_cumsum_def cumsum_def postprocess_data_def
  pad_or_truncate_def truncate_raw_prompt_ids_def slice_last_def

lemmas demo_defs = demo_config_def demo_mrope_config_def demo_tokenizer_def demo_processor_def
  demo_imaging_def demo_image_def demo_render_def demo_render_part_def demo_encode_def
  demo_text_record_def demo_image_record_def

theorem getitem_fixed_length_witness:
  "RLHFDataset_getitem demo_mrope_config [demo_image_record] 0 =
     Inr (fst (getitem_example demo_mrope_config demo_image_record)) \<and>
   fst (getitem_example demo_mrope_config demo_image_record) ''input_ids'' =
     Some (VTensor (T1 [0, 0, 60, 124, 105, 109, 97, 103, 101, 124, 62, 120])) \<and>
   fst (getitem_example demo_mrope_config demo_image_record) ''position_ids'' =
     Some (VTensor (T2 [[0, 0, 1, 1, 1, 1, 1, 1, 1, 1, 1, 1],
                        [0, 0, 1, 1, 1, 1, 1, 1, 1, 1, 1, 1],
                        [0, 0, 1, 1, 1, 1, 1, 1, 1, 1, 1, 1]]))"
proof -
  let ?c = demo_mrope_config and ?r = demo_image_record
  let ?out = "fst (getitem_example ?c ?r)"
  have ok: "snd (getitem_example ?c ?r) = None"
    by (simp add: getitem_defs demo_defs)
  then obtain out where g: "getitem_example ?c ?r = (out, None)"
    by (cases "getitem_example ?c ?r") simp
  have "RLHFDataset_getitem ?c [?r] 0 = Inr out"
    by (simp add: RLHFDataset_getitem_def list_index_def g)
  moreover have "out = ?out"
    by (simp add: g)
  ultimately have h: "RLHFDataset_getitem ?c [?r] 0 = Inr ?out"
    by simp
  have mi: "model_inputs ?c ?r =
              Inr ([60, 124, 105, 109, 97, 103, 101, 124, 62, 120], [1, 1, 1, 1, 1, 1, 1, 1, 1, 1],
                   T2 [[1, 1, 1, 1, 1, 1, 1, 1, 1, 1], [1, 1, 1, 1, 1, 1, 1, 1, 1, 1], [1, 1, 1, 1, 1, 1, 1, 1, 1, 1]])"
    by (simp add: model_inputs_def getitem_defs demo_defs)
  have k: "answer_key ?c = ''answer''" "max_prompt_length ?c = 12"
    "pad_token_id (tokenizer ?c) = 0"
    by (simp_all add: demo_defs)
  from getitem_fixed_length [of ?c "[?r]" 0 ?out] h
  obtain ex ids0 mask0 pos0 ids att pos where
    "ex \<in> set [?r]" and m: "model_inputs ?c ex = Inr (ids0, mask0, pos0)" and
    i: "left_padded (max_prompt_length ?c) (pad_token_id (tokenizer ?c)) ids0 ids" and
    p: "list_all2 (left_padded (max_prompt_length ?c) 0) (tensor_rows pos0) (tensor_rows pos)"
       "tensor_axes pos = tensor_axes pos0" and
    r: "returns_under ?c ?out ''input_ids'' (VTensor (T1 ids))"
       "returns_under ?c ?out ''position_ids'' (VTensor pos)"
    by blast
  then have "ex = ?r" by simp
  with m have "model_inputs ?c ?r = Inr (ids0, mask0, pos0)" by simp
  then have "Inr (ids0, mask0, pos0) =
             (Inr ([60, 124, 105, 109, 97, 103, 101, 124, 62, 120], [1, 1, 1, 1, 1, 1, 1, 1, 1, 1],
                   T2 [[1, 1, 1, 1, 1, 1, 1, 1, 1, 1], [1, 1, 1, 1, 1, 1, 1, 1, 1, 1],
                       [1, 1, 1, 1, 1, 1, 1, 1, 1, 1]]) :: error + (int list \<times> int list \<times> tensor))"
    by (simp only: mi)
  then have 0: "ids0 = [60, 124, 105, 109, 97, 103, 101, 124, 62, 120]"
    "pos0 = T2 [[1, 1, 1, 1, 1, 1, 1, 1, 1, 1], [1, 1, 1, 1, 1, 1, 1, 1, 1, 1], [1, 1, 1, 1, 1, 1, 1, 1, 1, 1]]"
    by simp_all
  from i have ids: "ids = [0, 0, 60, 124, 105, 109, 97, 103, 101, 124, 62, 120]"
    by (simp add: left_padded_def k 0 numeral_2_eq_2)
  from p obtain rows where pos: "pos = T2 rows"
    by (cases pos) (simp_all add: 0)
  with p have "list_all2 (left_padded 12 0) [[1, 1, 1, 1, 1, 1, 1, 1, 1, 1], [1, 1, 1, 1, 1, 1, 1, 1, 1, 1], [1, 1, 1, 1, 1, 1, 1, 1, 1, 1]] rows"
    by (simp add: 0 k)
  then have "rows = [[0, 0, 1, 1, 1, 1, 1, 1, 1, 1, 1, 1],
                     [0, 0, 1, 1, 1, 1, 1, 1, 1, 1, 1, 1],
                     [0, 0, 1, 1, 1, 1, 1, 1, 1, 1, 1, 1]]"
    by (auto simp: list_all2_Cons1 left_padded_def numeral_2_eq_2)
  with r ids pos h show ?thesis
    by (simp add: returns_under_def k)
qed


section \<open>Text-only records\<close>

lemma cumsum_from_ones:
  "cumsum_from a (replicate n 1) = map (\<lambda>i. a + 1 + int i) [0..<n]"
proof (induction n arbitrary: a)
  case 0
  then show ?case by simp
next
  case (Suc n)
  have "map (\<lambda>i. a + 1 + int i) [0..<Suc n] =
        (a + 1) # map (\<lambda>i. a + 1 + 1 + int i) [0..<n]"
    by (simp add: upt_conv_Cons map_Suc_upt [symmetric] del: upt_Suc)
  with Suc [of "a + 1"] show ?case
    by (simp del: upt_Suc)
qed

lemma clip_cumsum_ones: "clip_cumsum (replicate n 1) = map int [0..<n]"
  by (simp add: clip_cumsum_def cumsum_def cumsum_from_ones)

lemma pad_or_truncate_short:
  "length xs \<le> n \<Longrightarrow>
     pad_or_truncate n pad_value trunc xs = Inr (replicate (n - length xs) pad_value @ xs)"
  by (simp add: pad_or_truncate_def)

lemma truncate_raw_prompt_ids_short:
  "length ids \<le> n \<Longrightarrow> truncate_raw_prompt_ids n trunc ids = Inr ids"
  by (simp add: truncate_raw_prompt_ids_def)

text \<open>
  C2. Take a record without an image field whose rendered prompt encodes to the \<open>n\<close>
  token ids \<open>ids\<close>, with \<open>n \<le> max_prompt_length = L\<close>, the tokenizer call giving
  the same ids with a mask of \<open>n\<close> ones, and a backend without multimodal rotary
  positions. Then \<^verbatim>\<open>__getitem__\<close> returns \<open>input_ids\<close> equal to \<open>L - n\<close> pad ids
  followed by \<open>ids\<close>, \<open>attention_mask\<close> equal to \<open>L - n\<close> zeros followed by
  \<open>n\<close> ones, and \<open>position_ids\<close> equal to \<open>L - n\<close> zeros followed by
  \<open>0, 1, ..., n - 1\<close>; before padding, the positions are the cumulative sum of the
  mask minus one, clipped below at zero, which on \<open>n\<close> ones is \<open>0, 1, ..., n - 1\<close>.
\<close>

theorem getitem_text_only:
  assumes "ex (image_key cfg) = None"
    and "ex (prompt_key cfg) = Some (VStr p)"
    and "ex (answer_key cfg) = Some answer"
    and "\<not> uses_mrope cfg"
    and "prompt = tok_chat_template (tokenizer cfg)
                    [\<lparr>role = ''user'', content = Plain (effective_prompt cfg p)\<rparr>]"
    and "tok_encode (tokenizer cfg) prompt = ids"
    and "tok_call (tokenizer cfg) prompt = (ids, replicate (length ids) 1)"
    and "length ids \<le> max_prompt_length cfg"
  shows "\<exists>out. getitem_example cfg ex = (out, None) \<and>
           returns_under cfg out ''input_ids''
             (VTensor (T1 (replicate (max_prompt_length cfg - length ids)
                             (pad_token_id (tokenizer cfg)) @ ids))) \<and>
           returns_under cfg out ''attention_mask''
             (VTensor (T1 (replicate (max_prompt_length cfg - length ids) 0 @
                           replicate (length ids) 1))) \<and>
           returns_under cfg out ''position_ids''
             (VTensor (T1 (replicate (max_prompt_length cfg - length ids) 0 @
                           map int [0..<length ids]))) \<and>
           clip_cumsum (replicate (length ids) 1) = map int [0..<length ids]"
proof -
  let ?L = "max_prompt_length cfg" and ?n = "length ids"
  let ?p = "\<lparr>p_input_ids = replicate (?L - ?n) (pad_token_id (tokenizer cfg)) @ ids,
             p_attention_mask = replicate (?L - ?n) 0 @ replicate ?n 1,
             p_position_ids = T1 (replicate (?L - ?n) 0 @ map int [0..<?n]),
             p_raw_prompt_ids = ids\<rparr>"
  have b: "build_messages cfg ex =
             Inr [\<lparr>role = ''user'', content = Plain (effective_prompt cfg p)\<rparr>]"
    using assms(1,2) by (simp add: build_messages_def)
  have e: "encode_inputs cfg ex [\<lparr>role = ''user'', content = Plain (effective_prompt cfg p)\<rparr>] =
             (ex, Inr (prompt, ids, replicate ?n 1, None))"
    using assms(1,5,7) by (simp add: encode_inputs_def)
  have pos: "position_ids_of cfg ids None (replicate ?n 1) = T1 (map int [0..<?n])"
    using assms(4) by (simp add: position_ids_of_def clip_cumsum_ones)
  have pp: "postprocess_data ids (replicate ?n 1) (T1 (map int [0..<?n])) ?L
              (pad_token_id (tokenizer cfg)) (truncation cfg) =
            Inr (replicate (?L - ?n) (pad_token_id (tokenizer cfg)) @ ids,
                 replicate (?L - ?n) 0 @ replicate ?n 1,
                 T1 (replicate (?L - ?n) 0 @ map int [0..<?n]))"
    using assms(8) by (simp add: postprocess_data_def pad_or_truncate_short)
  have tr: "truncate_raw_prompt_ids ?L (truncation cfg) (tok_encode (tokenizer cfg) prompt) = Inr ids"
    using assms(6,8) by (simp add: truncate_raw_prompt_ids_short)
  have pr: "prepare cfg ex = (ex, Inr ?p)"
    by (simp add: prepare_def b e pos pp tr)
  have "\<exists>answer'. (ex(''input_ids'' \<mapsto> VTensor (T1 (p_input_ids ?p)),
                ''attention_mask'' \<mapsto> VTensor (T1 (p_attention_mask ?p)),
                ''position_ids'' \<mapsto> VTensor (p_position_ids ?p),
                ''raw_prompt_ids'' \<mapsto> VList (p_raw_prompt_ids ?p))) (answer_key cfg) = Some answer'"
    using assms(3) by simp
  then obtain out where a: "assemble cfg ex ?p = (out, None)"
    by (auto simp: assemble_def Let_def)
  then have g: "getitem_example cfg ex = (out, None)"
    by (simp add: getitem_example_def pr)
  from assemble_returns [OF a] have
    "returns_under cfg out ''input_ids'' (VTensor (T1 (p_input_ids ?p)))"
    "returns_under cfg out ''attention_mask'' (VTensor (T1 (p_attention_mask ?p)))"
    "returns_under cfg out ''position_ids'' (VTensor (p_position_ids ?p))"
    by blast+
  with g show ?thesis
    by (simp add: clip_cumsum_ones)
qed


theorem getitem_text_only_witness:
  "demo_text_record (image_key demo_config) = None \<and>
   \<not> uses_mrope demo_config \<and>
   tok_encode (tokenizer demo_config) ''2+2='' = [50, 43, 50, 61] \<and>
   snd (getitem_example demo_config demo_text_record) = None \<and>
   fst (getitem_example demo_config demo_text_record) ''input_ids'' =
     Some (VTensor (T1 [0, 0, 0, 0, 50, 43, 50, 61])) \<and>
   fst (getitem_example demo_config demo_text_record) ''attention_mask'' =
     Some (VTensor (T1 [0, 0, 0, 0, 1, 1, 1, 1])) \<and>
   fst (getitem_example demo_config demo_text_record) ''position_ids'' =
     Some (VTensor (T1 [0, 0, 0, 0, 0, 1, 2, 3]))"
proof -
  let ?c = demo_config and ?r = demo_text_record
  let ?ids = "[50, 43, 50, 61] :: int list"
  have h1: "?r (image_key ?c) = None"
    by (simp add: demo_defs)
  have h2: "?r (prompt_key ?c) = Some (VStr ''2+2='')"
    by (simp add: demo_defs)
  have h3: "?r (answer_key ?c) = Some (VStr ''4'')"
    by (simp add: demo_defs)
  have h4: "\<not> uses_mrope ?c"
    by (simp add: uses_mrope_def demo_defs)
  have h5: "''2+2='' = tok_chat_template (tokenizer ?c)
                    [\<lparr>role = ''user'', content = Plain (effective_prompt ?c ''2+2='')\<rparr>]"
    by (simp add: effective_prompt_def demo_defs)
  have h6: "tok_encode (tokenizer ?c) ''2+2='' = ?ids"
    by (simp add: demo_defs)
  have h7: "tok_call (tokenizer ?c) ''2+2='' = (?ids, replicate (length ?ids) 1)"
    by (simp add: demo_defs)
  have h8: "length ?ids \<le> max_prompt_length ?c"
    by (simp add: demo_defs)
  have k: "answer_key ?c = ''answer''" "max_prompt_length ?c = 8"
    "pad_token_id (tokenizer ?c) = 0"
    by (simp_all add: demo_defs)
  have n: "replicate 4 (0::int) = [0, 0, 0, 0]" "replicate 4 (1::int) = [1, 1, 1, 1]"
    "map int [0..<4] = [0, 1, 2, 3]"
    by (simp_all add: eval_nat_numeral upt_conv_Cons)
  from getitem_text_only [OF h1 h2 h3 h4 h5 h6 h7 h8]
  obtain out where g: "getitem_example ?c ?r = (out, None)" and
    r: "returns_under ?c out ''input_ids''
         (VTensor (T1 (replicate (max_prompt_length ?c - length ?ids)
                         (pad_token_id (tokenizer ?c)) @ ?ids)))"
       "returns_under ?c out ''attention_mask''
         (VTensor (T1 (replicate (max_prompt_length ?c - length ?ids) 0 @
                       replicate (length ?ids) 1)))"
       "returns_under ?c out ''position_ids''
         (VTensor (T1 (replicate (max_prompt_length ?c - length ?ids) 0 @
                       map int [0..<length ?ids])))"
    by blast
  have d: "max_prompt_length ?c - length ?ids = 4" "length ?ids = 4"
    by (simp_all add: k)
  from r have "out ''input_ids'' = Some (VTensor (T1 [0, 0, 0, 0, 50, 43, 50, 61]))"
    "out ''attention_mask'' = Some (VTensor (T1 [0, 0, 0, 0, 1, 1, 1, 1]))"
    "out ''position_ids'' = Some (VTensor (T1 [0, 0, 0, 0, 0, 1, 2, 3]))"
    unfolding d by (simp_all add: returns_under_def k n)
  with g h1 h4 h6 show ?thesis
    by simp
qed


section \<open>The second truncation\<close>

lemma getitem_raw_prompt_ids:
  assumes "getitem_example cfg ex = (out, None)"
  shows "\<exists>prompt raw.
           final_prompt cfg ex = Inr prompt \<and>
           truncate_raw_prompt_ids (max_prompt_length cfg) (truncation cfg)
             (tok_encode (tokenizer cfg) prompt) = Inr raw \<and>
           returns_under cfg out ''raw_prompt_ids'' (VList raw)"
proof -
  from getitem_example_success [OF assms] obtain ex1 p where
    pr: "prepare cfg ex = (ex1, Inr p)" and a: "assemble cfg ex1 p = (out, None)"
    by blast
  from prepare_model_inputs [OF pr] obtain prompt where
    "final_prompt cfg ex = Inr prompt"
    "truncate_raw_prompt_ids (max_prompt_length cfg) (truncation cfg)
       (tok_encode (tokenizer cfg) prompt) = Inr (p_raw_prompt_ids p)"
    by blast
  with assemble_returns(4) [OF a] show ?thesis by blast
qed

text \<open>
  With a budget of at least one token the second truncation does what its three policies
  say: an encoding within the budget is kept; a longer one is cut to its last
  \<open>max_prompt_length\<close> ids by \<open>left\<close>, to its first by \<open>right\<close>, and is refused by
  \<open>error\<close>; so the result is never longer than the budget.
\<close>

lemma truncate_raw_prompt_ids_positive_budget:
  assumes "0 < n"
  shows "length ids \<le> n \<Longrightarrow> truncate_raw_prompt_ids n trunc ids = Inr ids"
    and "n < length ids \<Longrightarrow>
           truncate_raw_prompt_ids n ''left'' ids = Inr (drop (length ids - n) ids)"
    and "n < length ids \<Longrightarrow> truncate_raw_prompt_ids n ''right'' ids = Inr (take n ids)"
    and "n < length ids \<Longrightarrow> truncate_raw_prompt_ids n ''error'' ids = Inl RuntimeError"
    and "trunc \<in> {''left'', ''right'', ''error''} \<Longrightarrow>
           truncate_raw_prompt_ids n trunc ids = Inr raw \<Longrightarrow> length raw \<le> n"
  using assms
  by (auto simp: truncate_raw_prompt_ids_def slice_last_def split: if_splits)

lemma getitem_raw_prompt_ids_positive_budget:
  assumes "getitem_example cfg ex = (out, None)"
    and "0 < max_prompt_length cfg"
    and "truncation cfg \<in> {''left'', ''right'', ''error''}"
    and "answer_key cfg \<noteq> ''raw_prompt_ids''"
  shows "\<exists>raw. out ''raw_prompt_ids'' = Some (VList raw) \<and> length raw \<le> max_prompt_length cfg"
proof -
  from getitem_raw_prompt_ids [OF assms(1)] obtain prompt raw where
    t: "truncate_raw_prompt_ids (max_prompt_length cfg) (truncation cfg)
             (tok_encode (tokenizer cfg) prompt) = Inr raw" and
    r: "returns_under cfg out ''raw_prompt_ids'' (VList raw)"
    by blast
  from truncate_raw_prompt_ids_positive_budget(5) [OF assms(2,3) t] r assms(4)
  show ?thesis by (simp add: returns_under_def)
qed

text \<open>
  C3, at a budget of zero. With \<open>max_prompt_length = 0\<close> and the policy \<open>left\<close>, the
  slice \<^verbatim>\<open>raw_prompt_ids[-0:]\<close> is the whole list: \<^verbatim>\<open>__getitem__\<close> succeeds and
  returns all four ids of the prompt, where the last zero ids are none and the sibling
  policy \<open>right\<close> does return none.
\<close>

theorem raw_prompt_ids_zero_budget_left:
  "snd (getitem_example (demo_config\<lparr>max_prompt_length := 0, truncation := ''left''\<rparr>)
          demo_text_record) = None \<and>
   fst (getitem_example (demo_config\<lparr>max_prompt_length := 0, truncation := ''left''\<rparr>)
          demo_text_record) ''raw_prompt_ids'' = Some (VList [50, 43, 50, 61]) \<and>
   fst (getitem_example (demo_config\<lparr>max_prompt_length := 0, truncation := ''right''\<rparr>)
          demo_text_record) ''raw_prompt_ids'' = Some (VList []) \<and>
   truncate_raw_prompt_ids 0 ''left'' [50, 43, 50, 61] = Inr [50, 43, 50, 61] \<and>
   truncate_raw_prompt_ids 0 ''right'' [50, 43, 50, 61] = Inr []"
  by (simp add: getitem_defs demo_defs Let_def)


section \<open>The fields of the returned dictionary\<close>

lemma encode_inputs_example:
  assumes "encode_inputs cfg ex messages = (ex1, Inr r)"
  shows "ex1 = (case ex (image_key cfg) of
                  None \<Rightarrow> ex
                | Some raw \<Rightarrow> ex(image_key cfg := None, ''multi_modal_data'' \<mapsto> VMultiModal raw))"
  using assms
  by (auto simp: encode_inputs_def Let_def split: option.splits sum.splits prod.splits)

text \<open>
  C9, as amended. In the dictionary of a successful call: every input field whose key is
  neither the image key, nor the answer key, nor one of the six keys the call stores
  under is there unchanged; \<^verbatim>\<open>ground_truth\<close> is the original value of the answer field
  whenever the answer key is none of \<^verbatim>\<open>input_ids\<close>, \<^verbatim>\<open>attention_mask\<close>,
  \<^verbatim>\<open>position_ids\<close>, \<^verbatim>\<open>raw_prompt_ids\<close> (nor, for a record with an image field,
  \<^verbatim>\<open>multi_modal_data\<close>); the answer key is absent unless it is \<^verbatim>\<open>ground_truth\<close>
  itself; for a record with an image field, the image key is absent unless it is one of
  the stored keys, and \<^verbatim>\<open>multi_modal_data\<close> holds the original value of the image
  field, not the processed images, unless the answer key is \<^verbatim>\<open>multi_modal_data\<close>.
\<close>

theorem getitem_frame:
  assumes "getitem_example cfg ex = (out, None)"
  shows "(\<forall>k. k \<notin> written_keys \<and> k \<noteq> image_key cfg \<and> k \<noteq> answer_key cfg \<longrightarrow> out k = ex k) \<and>
         (answer_key cfg \<notin> {''input_ids'', ''attention_mask'', ''position_ids'', ''raw_prompt_ids''} \<and>
          (ex (image_key cfg) \<noteq> None \<longrightarrow> answer_key cfg \<noteq> ''multi_modal_data'') \<longrightarrow>
            ex (answer_key cfg) \<noteq> None \<and> out ''ground_truth'' = ex (answer_key cfg)) \<and>
         (answer_key cfg \<noteq> ''ground_truth'' \<longrightarrow> out (answer_key cfg) = None) \<and>
         (ex (image_key cfg) \<noteq> None \<and> image_key cfg \<notin> written_keys \<longrightarrow>
            out (image_key cfg) = None) \<and>
         (\<forall>raw. ex (image_key cfg) = Some raw \<and> answer_key cfg \<noteq> ''multi_modal_data'' \<longrightarrow>
            out ''multi_modal_data'' = Some (VMultiModal raw))"
proof -
  from getitem_example_success [OF assms] obtain ex0 p where
    pr: "prepare cfg ex = (ex0, Inr p)" and a: "assemble cfg ex0 p = (out, None)"
    by (elim exE conjE)
  from prepare_success [OF pr] obtain messages r where
    e: "encode_inputs cfg ex messages = (ex0, Inr r)"
    by (elim exE conjE)
  define ex1 where "ex1 = (case ex (image_key cfg) of
                    None \<Rightarrow> ex
                  | Some raw \<Rightarrow> ex(image_key cfg := None, ''multi_modal_data'' \<mapsto> VMultiModal raw))"
  have ex0: "ex0 = ex1"
    unfolding ex1_def by (rule encode_inputs_example [OF e])
  from assemble_success [OF a] obtain answer where
    ans: "(ex1(''input_ids'' \<mapsto> VTensor (T1 (p_input_ids p)),
                ''attention_mask'' \<mapsto> VTensor (T1 (p_attention_mask p)),
                ''position_ids'' \<mapsto> VTensor (p_position_ids p),
                ''raw_prompt_ids'' \<mapsto> VList (p_raw_prompt_ids p))) (answer_key cfg) = Some answer" and
    out: "out = (ex1(''input_ids'' \<mapsto> VTensor (T1 (p_input_ids p)),
                ''attention_mask'' \<mapsto> VTensor (T1 (p_attention_mask p)),
                ''position_ids'' \<mapsto> VTensor (p_position_ids p),
                ''raw_prompt_ids'' \<mapsto> VList (p_raw_prompt_ids p),
                answer_key cfg := None,
                ''ground_truth'' \<mapsto> answer))"
    unfolding ex0 by (elim exE conjE)
  note ex1 = ex1_def
  have 1: "out k = ex k"
    if "k \<notin> written_keys \<and> k \<noteq> image_key cfg \<and> k \<noteq> answer_key cfg" for k
    using that by (simp add: out ex1 written_keys_def split: option.splits)
  have 2: "ex (answer_key cfg) \<noteq> None \<and> out ''ground_truth'' = ex (answer_key cfg)"
    if "answer_key cfg \<notin> {''input_ids'', ''attention_mask'', ''position_ids'', ''raw_prompt_ids''} \<and>
          (ex (image_key cfg) \<noteq> None \<longrightarrow> answer_key cfg \<noteq> ''multi_modal_data'')"
  proof -
    from that ans have "ex1 (answer_key cfg) = Some answer"
      by simp
    with that have "ex (answer_key cfg) = Some answer"
      by (auto simp: ex1 split: option.splits if_splits)
    then show ?thesis by (simp add: out)
  qed
  have 3: "out (answer_key cfg) = None" if "answer_key cfg \<noteq> ''ground_truth''"
    using that by (simp add: out)
  have 4: "out (image_key cfg) = None"
    if "ex (image_key cfg) \<noteq> None \<and> image_key cfg \<notin> written_keys"
    using that by (auto simp: out ex1 written_keys_def)
  have 5: "out ''multi_modal_data'' = Some (VMultiModal raw)"
    if "ex (image_key cfg) = Some raw \<and> answer_key cfg \<noteq> ''multi_modal_data''" for raw
    using that by (auto simp: out ex1)
  from 1 2 3 4 5 show ?thesis by blast
qed

text \<open>
  C9 as stated fails when the answer column is itself called \<^verbatim>\<open>ground_truth\<close>: the
  pop removes the key and the store of line 228 puts it back, so the answer key is in
  the returned dictionary under its original name.
\<close>

theorem answer_key_ground_truth_stays:
  "snd (getitem_example (demo_config\<lparr>answer_key := ''ground_truth''\<rparr>)
          [''problem'' \<mapsto> VStr ''2+2='', ''ground_truth'' \<mapsto> VStr ''4'']) = None \<and>
   fst (getitem_example (demo_config\<lparr>answer_key := ''ground_truth''\<rparr>)
          [''problem'' \<mapsto> VStr ''2+2='', ''ground_truth'' \<mapsto> VStr ''4''])
     (answer_key (demo_config\<lparr>answer_key := ''ground_truth''\<rparr>)) = Some (VStr ''4'')"
  by (simp add: getitem_defs demo_defs Let_def)


theorem getitem_frame_witness:
  "snd (getitem_example demo_mrope_config demo_image_record) = None \<and>
   fst (getitem_example demo_mrope_config demo_image_record) ''location'' =
     Some (VJson (JArr [JInt 56, JInt 511])) \<and>
   fst (getitem_example demo_mrope_config demo_image_record) ''ground_truth'' = Some (VStr ''4'') \<and>
   fst (getitem_example demo_mrope_config demo_image_record) ''answer'' = None \<and>
   fst (getitem_example demo_mrope_config demo_image_record) ''images'' = None \<and>
   fst (getitem_example demo_mrope_config demo_image_record) ''multi_modal_data'' =
     Some (VMultiModal (VImages [ImgPath ''a.png'']))"
proof -
  let ?c = demo_mrope_config and ?r = demo_image_record
  have ok: "snd (getitem_example ?c ?r) = None"
    by (simp add: getitem_defs demo_defs)
  then obtain out where g: "getitem_example ?c ?r = (out, None)"
    by (cases "getitem_example ?c ?r") simp
  have k: "answer_key ?c = ''answer''" "image_key ?c = ''images''"
    by (simp_all add: demo_defs)
  have r: "?r ''location'' = Some (VJson (JArr [JInt 56, JInt 511]))"
    "?r ''answer'' = Some (VStr ''4'')" "?r ''images'' = Some (VImages [ImgPath ''a.png''])"
    by (simp_all add: demo_defs)
  note f = getitem_frame [OF g, unfolded k]
  have w: "''location'' \<notin> written_keys" "''images'' \<notin> written_keys"
    by (simp_all add: written_keys_def)
  from f w have "out ''location'' = ?r ''location''"
    by simp
  moreover from f r have "out ''ground_truth'' = ?r ''answer''"
    by simp
  moreover from f have "out ''answer'' = None"
    by simp
  moreover from f r w have "out ''images'' = None"
    by simp
  moreover from f r have "out ''multi_modal_data'' = Some (VMultiModal (VImages [ImgPath ''a.png'']))"
    by simp
  ultimately show ?thesis
    using ok by (simp add: g r)
qed


section \<open>Pixel bounds that are not set\<close>

lemma process_image_no_max:
  "process_image io img min_px None =
     (case open_image io img of Inl e \<Rightarrow> Inl e | Inr im \<Rightarrow> Inl TypeError)"
  by (simp add: process_image_def pixels_gt_def split: sum.splits)

lemma process_image_no_min:
  "\<exists>e. process_image io img None max_px = Inl e"
proof (cases "process_image io img None max_px")
  case (Inl e)
  then show ?thesis by blast
next
  case (Inr im)
  then have False
    by (auto simp: process_image_def and_then_Inr_iff pixels_lt_def)
  then show ?thesis ..
qed

lemma process_image_unset_bound:
  assumes "min_px = None \<or> max_px = None"
  shows "\<exists>e. process_image io img min_px max_px = Inl e"
proof (cases "max_px")
  case None
  then show ?thesis
    by (cases "open_image io img") (simp_all add: process_image_no_max)
next
  case (Some b)
  with assms have "min_px = None" by simp
  then show ?thesis by (simp add: process_image_no_min)
qed

lemma process_images_unset_bound:
  assumes "min_px = None \<or> max_px = None"
  shows "\<exists>e. process_images io min_px max_px (img # rest) = Inl e"
  using process_image_unset_bound [OF assms, of io img] by auto

lemma encode_inputs_unset_bound:
  assumes "ex (image_key cfg) = Some (VImages (img # rest))"
    and "min_pixels cfg = None \<or> max_pixels cfg = None"
  shows "\<exists>ex1 e. encode_inputs cfg ex messages = (ex1, Inl e)"
proof (cases "processor cfg")
  case None
  with assms(1) show ?thesis by (simp add: encode_inputs_def)
next
  case (Some pr)
  from process_images_unset_bound [OF assms(2), of "imaging cfg" img rest]
  obtain e where "process_images (imaging cfg) (min_pixels cfg) (max_pixels cfg) (img # rest) = Inl e"
    by blast
  with assms(1) Some show ?thesis
    by (simp add: encode_inputs_def iter_images_def)
qed

lemma getitem_example_unset_bound:
  assumes "ex (image_key cfg) = Some (VImages (img # rest))"
    and "min_pixels cfg = None \<or> max_pixels cfg = None"
  shows "snd (getitem_example cfg ex) \<noteq> None"
proof (cases "build_messages cfg ex")
  case (Inl e)
  then show ?thesis by (simp add: getitem_example_def prepare_def)
next
  case (Inr messages)
  from encode_inputs_unset_bound [of ex cfg img rest messages] assms
  obtain ex1 e where "encode_inputs cfg ex messages = (ex1, Inl e)"
    by blast
  with Inr show ?thesis by (simp add: getitem_example_def prepare_def)
qed

lemma getitem_example_default_bounds:
  assumes "ex (image_key cfg) = Some (VImages (img # rest))"
    and "min_pixels cfg = None" and "max_pixels cfg = None"
    and "build_messages cfg ex = Inr messages"
    and "processor cfg = Some pr"
    and "open_image (imaging cfg) img = Inr im"
  shows "snd (getitem_example cfg ex) = Some TypeError"
proof -
  have "process_images (imaging cfg) (min_pixels cfg) (max_pixels cfg) (img # rest) = Inl TypeError"
    by (simp add: assms(3,6) process_image_no_max)
  then have "encode_inputs cfg ex messages = (ex(image_key cfg := None), Inl TypeError)"
    using assms(1,5) by (simp add: encode_inputs_def iter_images_def)
  then show ?thesis
    using assms(4) by (simp add: getitem_example_def prepare_def)
qed

text \<open>
  C10. Both constructors default \<open>min_pixels\<close> and \<open>max_pixels\<close> to \<open>None\<close>. For a
  record whose image field holds at least one image, \<^verbatim>\<open>__getitem__\<close> fails whenever one
  of the two bounds is \<open>None\<close>, so it can only succeed when both are set. Under the
  defaults, once the messages are built, a processor is there and the first image
  decodes, the failure is the \<^verbatim>\<open>TypeError\<close> of the comparison of the pixel count with
  \<open>max_pixels\<close> inside \<^verbatim>\<open>process_image\<close>: the resizing is not skipped.
\<close>

theorem getitem_image_record_needs_pixel_bounds:
  assumes "ex (image_key cfg) = Some (VImages (img # rest))"
  shows "default_min_pixels = None \<and> default_max_pixels = None \<and>
         (min_pixels cfg = None \<or> max_pixels cfg = None \<longrightarrow> snd (getitem_example cfg ex) \<noteq> None) \<and>
         (snd (getitem_example cfg ex) = None \<longrightarrow> min_pixels cfg \<noteq> None \<and> max_pixels cfg \<noteq> None) \<and>
         (min_pixels cfg = default_min_pixels \<and> max_pixels cfg = default_max_pixels \<and>
          (\<exists>messages. build_messages cfg ex = Inr messages) \<and> processor cfg \<noteq> None \<and>
          (\<exists>im. open_image (imaging cfg) img = Inr im) \<longrightarrow>
            pixels_gt (width (projr (open_image (imaging cfg) img)) *
                       height (projr (open_image (imaging cfg) img))) (max_pixels cfg) = Inl TypeError \<and>
            process_image (imaging cfg) img (min_pixels cfg) (max_pixels cfg) = Inl TypeError \<and>
            snd (getitem_example cfg ex) = Some TypeError)"
proof -
  have d1: "default_min_pixels = None"
    by (simp add: default_min_pixels_def)
  have d2: "default_max_pixels = None"
    by (simp add: default_max_pixels_def)
  have 1: "min_pixels cfg = None \<or> max_pixels cfg = None \<longrightarrow> snd (getitem_example cfg ex) \<noteq> None"
    using getitem_example_unset_bound [of ex cfg img rest] assms by blast
  have 3: "snd (getitem_example cfg ex) = None \<longrightarrow>
           min_pixels cfg \<noteq> None \<and> max_pixels cfg \<noteq> None"
    using 1 by (cases "min_pixels cfg"; cases "max_pixels cfg") simp_all
  have 2: "min_pixels cfg = default_min_pixels \<and> max_pixels cfg = default_max_pixels \<and>
          (\<exists>messages. build_messages cfg ex = Inr messages) \<and> processor cfg \<noteq> None \<and>
          (\<exists>im. open_image (imaging cfg) img = Inr im) \<longrightarrow>
            pixels_gt (width (projr (open_image (imaging cfg) img)) *
                       height (projr (open_image (imaging cfg) img))) (max_pixels cfg) = Inl TypeError \<and>
            process_image (imaging cfg) img (min_pixels cfg) (max_pixels cfg) = Inl TypeError \<and>
            snd (getitem_example cfg ex) = Some TypeError"
  proof (rule impI)
    assume h: "min_pixels cfg = default_min_pixels \<and> max_pixels cfg = default_max_pixels \<and>
          (\<exists>messages. build_messages cfg ex = Inr messages) \<and> processor cfg \<noteq> None \<and>
          (\<exists>im. open_image (imaging cfg) img = Inr im)"
    then obtain messages pr im where *: "min_pixels cfg = None" "max_pixels cfg = None"
      "build_messages cfg ex = Inr messages" "processor cfg = Some pr"
      "open_image (imaging cfg) img = Inr im"
      by (auto simp: d1 d2)
    have "snd (getitem_example cfg ex) = Some TypeError"
      using getitem_example_default_bounds [of ex cfg img rest messages pr im] assms * by simp
    moreover have "process_image (imaging cfg) img (min_pixels cfg) (max_pixels cfg) = Inl TypeError"
      by (simp add: * process_image_no_max)
    moreover have "pixels_gt (width (projr (open_image (imaging cfg) img)) *
                       height (projr (open_image (imaging cfg) img))) (max_pixels cfg) = Inl TypeError"
      by (simp add: *(2) pixels_gt_def)
    ultimately show "pixels_gt (width (projr (open_image (imaging cfg) img)) *
                       height (projr (open_image (imaging cfg) img))) (max_pixels cfg) = Inl TypeError \<and>
            process_image (imaging cfg) img (min_pixels cfg) (max_pixels cfg) = Inl TypeError \<and>
            snd (getitem_example cfg ex) = Some TypeError"
      by (intro conjI)
  qed
  show ?thesis
    by (rule conjI [OF d1 conjI [OF d2 conjI [OF 1 conjI [OF 3 2]]]])
qed


theorem getitem_image_record_needs_pixel_bounds_witness:
  "demo_image_record (image_key (demo_mrope_config\<lparr>min_pixels := None, max_pixels := None\<rparr>)) =
     Some (VImages [ImgPath ''a.png'']) \<and>
   min_pixels (demo_mrope_config\<lparr>min_pixels := None, max_pixels := None\<rparr>) = default_min_pixels \<and>
   max_pixels (demo_mrope_config\<lparr>min_pixels := None, max_pixels := None\<rparr>) = default_max_pixels \<and>
   snd (getitem_example (demo_mrope_config\<lparr>min_pixels := None, max_pixels := None\<rparr>)
          demo_image_record) = Some TypeError \<and>
   snd (getitem_example demo_mrope_config demo_image_record) = None"
proof -
  let ?c = "demo_mrope_config\<lparr>min_pixels := None, max_pixels := None\<rparr>"
  let ?r = demo_image_record
  have h: "?r (image_key ?c) = Some (VImages (ImgPath ''a.png'' # []))"
    by (simp add: demo_defs)
  have a: "min_pixels ?c = default_min_pixels" "max_pixels ?c = default_max_pixels"
    by (simp_all add: default_min_pixels_def default_max_pixels_def)
  have b: "\<exists>messages. build_messages ?c ?r = Inr messages"
    by (simp add: build_messages_def demo_defs)
  have p: "processor ?c \<noteq> None"
    by (simp add: demo_defs)
  have i: "\<exists>im. open_image (imaging ?c) (ImgPath ''a.png'') = Inr im"
    by (simp add: open_image_def demo_defs)
  have ok: "snd (getitem_example demo_mrope_config ?r) = None"
    by (simp add: getitem_defs demo_defs)
  from getitem_image_record_needs_pixel_bounds [of ?r ?c "ImgPath ''a.png''" "[]", OF h] a b p i
  have "snd (getitem_example ?c ?r) = Some TypeError"
    by blast
  with h a ok show ?thesis
    by simp
qed


section \<open>Two accesses to the same index\<close>

lemma demo_self_first_access:
  "snd (getitem_example demo_mrope_config demo_self_record) = None"
  "fst (getitem_example demo_mrope_config demo_self_record) ''images'' = None"
  "fst (getitem_example demo_mrope_config demo_self_record) ''answer'' = None"
  "fst (getitem_example demo_mrope_config demo_self_record) ''problem'' = Some (VStr ''<image>x'')"
  by (simp_all add: getitem_defs demo_defs demo_self_record_def Let_def)

lemma getitem_example_without_answer:
  assumes "ex (image_key cfg) = None"
    and "ex (answer_key cfg) = None"
    and "answer_key cfg \<notin> {''input_ids'', ''attention_mask'', ''position_ids'', ''raw_prompt_ids''}"
    and "snd (prepare cfg ex) = Inr p"
  shows "snd (getitem_example cfg ex) = Some (KeyError (answer_key cfg))"
proof -
  obtain ex1 where pr: "prepare cfg ex = (ex1, Inr p)"
    using assms(4) by (cases "prepare cfg ex") simp
  from prepare_success [OF pr] obtain messages r where
    "encode_inputs cfg ex messages = (ex1, Inr r)"
    by (elim exE conjE)
  with assms(1) have "ex1 = ex"
    by (simp add: encode_inputs_def Let_def)
  with assms(2,3) have "assemble cfg ex1 p =
      (ex(''input_ids'' \<mapsto> VTensor (T1 (p_input_ids p)),
          ''attention_mask'' \<mapsto> VTensor (T1 (p_attention_mask p)),
          ''position_ids'' \<mapsto> VTensor (p_position_ids p),
          ''raw_prompt_ids'' \<mapsto> VList (p_raw_prompt_ids p)), Some (KeyError (answer_key cfg)))"
    by (simp add: assemble_def Let_def)
  then show ?thesis
    by (simp add: getitem_example_def pr)
qed

text \<open>
  C5, on a dataset of \<^verbatim>\<open>RLHFSelfDataset\<close> with the one record that \<^verbatim>\<open>__init__\<close>
  builds from one annotation. The first access to index 0 succeeds, and it pops the image
  key and the answer key from the stored record itself; the second access to the same
  index therefore takes the text-only branch and fails with a \<^verbatim>\<open>KeyError\<close> at
  \<^verbatim>\<open>example.pop(self.answer_key)\<close>.
\<close>

theorem RLHFSelfDataset_getitem_twice:
  "RLHFSelfDataset_init demo_str (Some ''/data'') demo_annotations = Inr [demo_self_record] \<and>
   \<not> isl (fst (RLHFSelfDataset_getitem demo_mrope_config [demo_self_record] 0)) \<and>
   demo_self_record ''images'' = Some (VImages [ImgPath ''/data/02438_origin.png'']) \<and>
   demo_self_record ''answer'' = Some (VStr ''40'') \<and>
   (snd (RLHFSelfDataset_getitem demo_mrope_config [demo_self_record] 0) ! 0) ''images'' = None \<and>
   (snd (RLHFSelfDataset_getitem demo_mrope_config [demo_self_record] 0) ! 0) ''answer'' = None \<and>
   fst (RLHFSelfDataset_getitem demo_mrope_config
          (snd (RLHFSelfDataset_getitem demo_mrope_config [demo_self_record] 0)) 0) =
     Inl (KeyError ''answer'')"
proof -
  let ?c = demo_mrope_config
  obtain out where g: "getitem_example ?c demo_self_record = (out, None)"
    using demo_self_first_access(1) by (cases "getitem_example ?c demo_self_record") simp
  have out: "out ''images'' = None" "out ''answer'' = None"
    "out ''problem'' = Some (VStr ''<image>x'')"
    using demo_self_first_access(2,3,4) by (simp_all add: g)
  have first: "RLHFSelfDataset_getitem ?c [demo_self_record] 0 = (Inr out, [out])"
    by (simp add: RLHFSelfDataset_getitem_def list_index_def g)
  have k: "image_key ?c = ''images''" "answer_key ?c = ''answer''" "prompt_key ?c = ''problem''"
    by (simp_all add: demo_defs)
  have b: "build_messages ?c out = Inr [\<lparr>role = ''user'', content = Plain ''<image>x''\<rparr>]"
    by (simp add: build_messages_def k out effective_prompt_def demo_defs)
  have e: "snd (encode_inputs ?c out [\<lparr>role = ''user'', content = Plain ''<image>x''\<rparr>]) =
             Inr (''<image>x'', [60, 105, 109, 97, 103, 101, 62, 120], [1, 1, 1, 1, 1, 1, 1, 1], None)"
    by (simp add: encode_inputs_def k out Let_def demo_defs)
  obtain ex1 where enc: "encode_inputs ?c out [\<lparr>role = ''user'', content = Plain ''<image>x''\<rparr>] =
             (ex1, Inr (''<image>x'', [60, 105, 109, 97, 103, 101, 62, 120],
                        [1, 1, 1, 1, 1, 1, 1, 1], None))"
    using e by (cases "encode_inputs ?c out [\<lparr>role = ''user'', content = Plain ''<image>x''\<rparr>]") simp
  have f: "max_prompt_length ?c = 12" "pad_token_id (tokenizer ?c) = 0" "truncation ?c = ''error''"
    "tok_encode (tokenizer ?c) ''<image>x'' = [60, 105, 109, 97, 103, 101, 62, 120]"
    by (simp_all add: demo_defs)
  have pos: "position_ids_of ?c [60, 105, 109, 97, 103, 101, 62, 120] None
               [1, 1, 1, 1, 1, 1, 1, 1] = T2 [[1, 1, 1, 1, 1, 1, 1, 1], [1, 1, 1, 1, 1, 1, 1, 1],
                                              [1, 1, 1, 1, 1, 1, 1, 1]]"
    by (simp add: position_ids_of_def uses_mrope_def demo_defs)
  have "\<exists>p. snd (prepare ?c out) = Inr p"
    using pos
    by (simp add: prepare_def b enc f postprocess_data_def pad_or_truncate_def
        truncate_raw_prompt_ids_def)
  then obtain p where p: "snd (prepare ?c out) = Inr p" ..
  have "snd (getitem_example ?c out) = Some (KeyError (answer_key ?c))"
    by (rule getitem_example_without_answer [OF _ _ _ p]) (simp_all add: k out)
  then have second: "fst (RLHFSelfDataset_getitem ?c [out] 0) = Inl (KeyError ''answer'')"
    by (cases "getitem_example ?c out")
       (simp add: RLHFSelfDataset_getitem_def list_index_def k)
  have init: "RLHFSelfDataset_init demo_str (Some ''/data'') demo_annotations = Inr [demo_self_record]"
    by (simp add: RLHFSelfDataset_init_def json_iter_def new_ele_def json_get_def
        json_str_def path_join_def demo_self_record_def demo_str_def demo_annotations_def)
  have rec: "demo_self_record ''images'' = Some (VImages [ImgPath ''/data/02438_origin.png''])"
    "demo_self_record ''answer'' = Some (VStr ''40'')"
    by (simp_all add: demo_self_record_def)
  from init rec second out show ?thesis
    by (simp add: first)
qed


end
